theory Spec2Isabelle
  imports Complex_Main "HOL-Library.Sublist"
begin

section \<open>JavaScript values and strings\<close>

text \<open>
  The program is TypeScript running in a browser. A JavaScript string is modelled as a
  \<^typ>\<open>string\<close> whose characters are code units below 256; a value that came out of
  \<open>JSON.parse\<close> (or that a property read produced) is a \<open>jsval\<close>. A number is
  a double; it is represented by the text that JavaScript's \<open>Number::toString\<close> renders
  it as (\<open>404\<close>, \<open>-3\<close>, \<open>0.5\<close>, \<open>18446744073709552000\<close>, \<open>1e+21\<close>,
  \<open>NaN\<close>), which names the double: two numbers are equal exactly when their texts are,
  and both zeros are \<open>0\<close>. So nothing has to be said here about how a double is
  rounded and printed. An object is the list of its properties, every name once.
\<close>

datatype jsval =
    Undefined
  | Null
  | Bool bool
  | Num string
  | Str string
  | Arr "jsval list"
  | Obj "(string \<times> jsval) list"

text \<open>
  A thrown error object with its message. \<open>new Error(v)\<close> stores \<open>ToString(v)\<close>; the
  messages of the TypeError of a rejected \<open>fetch\<close> and of the SyntaxError of a failed
  \<open>json()\<close> are the browser's.
\<close>

datatype js_error =
    Error string
  | TypeError string
  | SyntaxError string

text \<open>
  Template literals and \<open>String(n)\<close> on the non-negative integers that the program
  itself renders: HTTP status codes, the 2-second buckets of \<open>Date.now()\<close> and the
  seconds of a delay. All of them are far below \<open>10^21\<close>, where the rendering is the
  plain decimal numeral.
\<close>

fun show_nat :: "nat \<Rightarrow> string" where
  "show_nat n =
     (if n < 10 then [''0123456789'' ! n]
      else show_nat (n div 10) @ [''0123456789'' ! (n mod 10)])"

declare show_nat.simps [simp del]

text \<open>\<open>Array.prototype.join\<close> on strings.\<close>

fun join :: "string \<Rightarrow> string list \<Rightarrow> string" where
  "join sep [] = []"
| "join sep [x] = x"
| "join sep (x # y # ys) = x @ sep @ join sep (y # ys)"

text \<open>
  \<open>ToString\<close>: what a template literal and the \<open>Error\<close> constructor make of a
  value. Inside an array, \<open>null\<close> and \<open>undefined\<close> are rendered as the empty
  string.
\<close>

fun to_string :: "jsval \<Rightarrow> string" where
  "to_string Undefined = ''undefined''"
| "to_string Null = ''null''"
| "to_string (Bool b) = (if b then ''true'' else ''false'')"
| "to_string (Num t) = t"
| "to_string (Str s) = s"
| "to_string (Arr xs) =
     join '','' (map (\<lambda>x. if x = Undefined \<or> x = Null then [] else to_string x) xs)"
| "to_string (Obj kvs) = ''[object Object]''"

text \<open>\<open>ToBoolean\<close>: the values that \<open>||\<close>, \<open>&&\<close> and \<open>if\<close> take as true.\<close>

fun truthy :: "jsval \<Rightarrow> bool" where
  "truthy Undefined = False"
| "truthy Null = False"
| "truthy (Bool b) = b"
| "truthy (Num t) = (t \<noteq> ''0'' \<and> t \<noteq> ''NaN'')"
| "truthy (Str s) = (s \<noteq> [])"
| "truthy (Arr xs) = True"
| "truthy (Obj kvs) = True"

definition js_or :: "jsval \<Rightarrow> jsval \<Rightarrow> jsval" where
  "js_or a b = (if truthy a then a else b)"

text \<open>
  Reading a property \<open>v.k\<close>, for the keys the program reads (\<open>detail\<close>,
  \<open>type\<close>, \<open>data\<close>, \<open>text\<close>, \<open>message\<close>, \<open>status\<close>): on
  \<open>null\<close> and \<open>undefined\<close> it throws a TypeError (\<open>None\<close>; every such read of
  the program sits in a \<open>try\<close> whose \<open>catch\<close> drops the error), on an object it is the stored
  value or \<open>undefined\<close>, on any other value it is \<open>undefined\<close>.
\<close>

fun get_prop :: "jsval \<Rightarrow> string \<Rightarrow> jsval option" where
  "get_prop Undefined k = None"
| "get_prop Null k = None"
| "get_prop (Obj kvs) k = (case map_of kvs k of None \<Rightarrow> Some Undefined | Some v \<Rightarrow> Some v)"
| "get_prop v k = Some Undefined"

text \<open>The message of a thrown error, as \<open>err.message\<close> reads it.\<close>

fun message_of :: "js_error \<Rightarrow> string" where
  "message_of (Error m) = m"
| "message_of (TypeError m) = m"
| "message_of (SyntaxError m) = m"

section \<open>The Task API client\<close>

text \<open>
  A \<open>fetch\<close> either rejects (the network failed) or resolves to a response. Of a
  response the client reads the status and what \<open>response.json()\<close> makes of the body:
  the parsed value, or the SyntaxError it rejects with when the body is not JSON.
\<close>

record response =
  status :: nat
  json :: "js_error + jsval"

definition ok :: "response \<Rightarrow> bool" where
  "ok r = (200 \<le> status r \<and> status r \<le> 299)"

text \<open>
  The \<open>try { errorData = await response.json(); errorDetail = errorData.detail ||
  errorDetail } catch { }\<close> block that \<open>createTask\<close> and \<open>handleApiResponse\<close>
  share: any throw inside it leaves the generic message in place.
\<close>

definition detail_or :: "response \<Rightarrow> string \<Rightarrow> jsval" where
  "detail_or r errorDetail =
     (case json r of
        Inl e \<Rightarrow> Str errorDetail
      | Inr errorData \<Rightarrow>
          (case get_prop errorData ''detail'' of
             None \<Rightarrow> Str errorDetail
           | Some d \<Rightarrow> js_or d (Str errorDetail)))"



definition handleApiResponse :: "response \<Rightarrow> string \<Rightarrow> js_error + jsval" where
  "handleApiResponse r context =
     (if \<not> ok r
      then Inl (Error (to_string (detail_or r
                 (''HTTP error! status: '' @ show_nat (status r) @ '' in '' @ context))))
      else if status r = 204 then Inr Null
      else json r)"

definition fetchActionData :: "js_error + response \<Rightarrow> js_error + jsval" where
  "fetchActionData fetched =
     (case fetched of
        Inl e \<Rightarrow> Inl e
      | Inr r \<Rightarrow>
          if status r = 204 then Inr Null
          else handleApiResponse r ''fetchActionData'')"

definition fetchStepData :: "js_error + response \<Rightarrow> js_error + jsval" where
  "fetchStepData fetched =
     (case fetched of
        Inl e \<Rightarrow> Inl e
      | Inr r \<Rightarrow>
          if status r = 204 then Inr Null
          else handleApiResponse r ''fetchStepData'')"







text \<open>The ten exported helpers, to speak about all of them at once.\<close>

datatype helper =
    CreateTask | FetchTaskStatus | FetchActionData | FetchStepData | FetchPlannerThoughts
  | MarkPlannerThoughtsSeen | ResumeTask | ApproveAction | RejectAction | CancelGoal



section \<open>String operations of the voice page\<close>

text \<open>\<open>s.includes(t)\<close>: \<open>t\<close> occurs in \<open>s\<close> as a contiguous substring.\<close>

fun str_includes :: "string \<Rightarrow> string \<Rightarrow> bool" where
  "str_includes [] t = (t = [])"
| "str_includes (x # xs) t = (prefix t (x # xs) \<or> str_includes xs t)"

text \<open>
  \<open>toLowerCase\<close> on code units below 256: the letters A to Z and the upper-case letters
  of Latin-1 (0xC0 to 0xDE, without the multiplication sign 0xD7) move up by 32, which
  for these code units is setting the bit of value 32.
\<close>

definition lower_char :: "char \<Rightarrow> char" where
  "lower_char c =
     (let n = (of_char c :: nat)
      in if (65 \<le> n \<and> n \<le> 90) \<or> (192 \<le> n \<and> n \<le> 222 \<and> n \<noteq> 215)
         then (case c of Char b0 b1 b2 b3 b4 b5 b6 b7 \<Rightarrow> Char b0 b1 b2 b3 b4 True b6 b7)
         else c)"

definition toLowerCase :: "string \<Rightarrow> string" where
  "toLowerCase s = map lower_char s"

text \<open>
  \<open>trim\<close>: the white space and line terminators below 256 are tab, line feed, vertical
  tab, form feed, carriage return, space and the no-break space.
\<close>

definition is_space :: "char \<Rightarrow> bool" where
  "is_space c = ((of_char c :: nat) \<in> {9, 10, 11, 12, 13, 32, 160})"

definition trim :: "string \<Rightarrow> string" where
  "trim s = rev (dropWhile is_space (rev (dropWhile is_space s)))"

text \<open>
  \<open>JSON.stringify\<close>: the result is a string, or \<open>undefined\<close> for \<open>undefined\<close>.
  In a string the quote and the backslash are escaped, the control characters are written
  \<open>\b \t \n \f \r\<close> or \<open>\u00XX\<close>; in an array \<open>undefined\<close> becomes \<open>null\<close>;
  a property whose value is \<open>undefined\<close> is left out; a number that is not finite
  becomes \<open>null\<close>.
\<close>

definition escape_char :: "char \<Rightarrow> string" where
  "escape_char c =
     (let n = (of_char c :: nat)
      in if n = 34 then [CHR 0x5C, CHR 0x22]
         else if n = 92 then [CHR 0x5C, CHR 0x5C]
         else if n = 8 then [CHR 0x5C, CHR ''b'']
         else if n = 9 then [CHR 0x5C, CHR ''t'']
         else if n = 10 then [CHR 0x5C, CHR ''n'']
         else if n = 12 then [CHR 0x5C, CHR ''f'']
         else if n = 13 then [CHR 0x5C, CHR ''r'']
         else if n < 32
           then [CHR 0x5C, CHR ''u'', CHR ''0'', CHR ''0'',
                 ''0123456789abcdef'' ! (n div 16), ''0123456789abcdef'' ! (n mod 16)]
         else [c])"

definition quote :: "string \<Rightarrow> string" where
  "quote s = CHR 0x22 # concat (map escape_char s) @ [CHR 0x22]"

fun stringify :: "jsval \<Rightarrow> string option"
  and stringify_elems :: "jsval list \<Rightarrow> string list"
  and stringify_props :: "(string \<times> jsval) list \<Rightarrow> string list" where
  "stringify Undefined = None"
| "stringify Null = Some ''null''"
| "stringify (Bool b) = Some (if b then ''true'' else ''false'')"
| "stringify (Num t) =
     Some (if t = ''NaN'' \<or> t = ''Infinity'' \<or> t = ''-Infinity'' then ''null'' else t)"
| "stringify (Str s) = Some (quote s)"
| "stringify (Arr xs) = Some (''['' @ join '','' (stringify_elems xs) @ '']'')"
| "stringify (Obj kvs) = Some (''{'' @ join '','' (stringify_props kvs) @ ''}'')"
| "stringify_elems [] = []"
| "stringify_elems (x # xs) =
     (case stringify x of None \<Rightarrow> ''null'' | Some t \<Rightarrow> t) # stringify_elems xs"
| "stringify_props [] = []"
| "stringify_props (kv # kvs) =
     (case stringify (snd kv) of
        None \<Rightarrow> stringify_props kvs
      | Some t \<Rightarrow> (quote (fst kv) @ '':'' @ t) # stringify_props kvs)"

definition JSON_stringify :: "jsval \<Rightarrow> jsval" where
  "JSON_stringify v = (case stringify v of None \<Rightarrow> Undefined | Some t \<Rightarrow> Str t)"

text \<open>
  \<open>m.includes(t)\<close> on a value: a string searches for the substring, an array for the
  element; any other value has no such method and the call throws (\<open>None\<close>).
\<close>

fun js_includes :: "jsval \<Rightarrow> string \<Rightarrow> bool option" where
  "js_includes (Str s) t = Some (str_includes s t)"
| "js_includes (Arr xs) t = Some (Str t \<in> set xs)"
| "js_includes v t = None"

text \<open>\<open>xs.findIndex(p)\<close>, with \<open>None\<close> for \<open>-1\<close>.\<close>

fun findIndex :: "('a \<Rightarrow> bool) \<Rightarrow> 'a list \<Rightarrow> nat option" where
  "findIndex p [] = None"
| "findIndex p (x # xs) =
     (if p x then Some 0 else map_option Suc (findIndex p xs))"

section \<open>The voice page: state\<close>

record voice =
  voice_name :: string
  voice_lang :: string
  voice_default :: bool

record utterance =
  utext :: string
  rate :: real
  pitch :: real
  volume :: real
  uvoice :: "voice option"

text \<open>
  The values of the component's \<open>useState\<close> variables. A handler is a closure that was
  created during one render: what it reads of these variables is the value of that render
  (the argument \<open>c\<close> of the functions below), while its calls of the setters change
  the current state (\<open>react\<close> in \<open>voice_state\<close>). A chat message is its type, its
  text and its time stamp.
\<close>

record react_state =
  isConnected :: bool
  isListening :: bool
  transcript :: string
  messages :: "(string \<times> jsval \<times> nat) list"
  isProcessing :: bool
  isSpeaking :: bool
  availableVoices :: "voice list"
  selectedVoiceIndex :: nat
  speechEnabled :: bool

text \<open>The initial values of the \<open>useState\<close> calls: the first render.\<close>

definition first_render :: react_state where
  "first_render =
     \<lparr>isConnected = False, isListening = False, transcript = [], messages = [],
      isProcessing = False, isSpeaking = False, availableVoices = [],
      selectedVoiceIndex = 0, speechEnabled = False\<rparr>"

datatype ready_state = CONNECTING | OPEN | CLOSING | CLOSED

text \<open>What a \<open>setTimeout\<close> will call, with the render of the closure that set it.\<close>

datatype timer_callback =
    ConnectToBackend react_state
  | CallSpeak react_state string bool bool
  | CallStartSpeech react_state string bool bool
  | SynthSpeak utterance

text \<open>
  \<open>window.speechSynthesis\<close>: the utterances handed to \<open>speak\<close> since the last
  \<open>cancel()\<close>, oldest first, and what \<open>getVoices()\<close> returns.
\<close>

record speech_synthesis =
  queue :: "utterance list"
  getVoices :: "voice list"

text \<open>
  The refs of the component and the browser objects it drives: \<open>wsReadyState\<close> is
  \<open>wsRef.current?.readyState\<close>, \<open>wsSent\<close> the frames given to \<open>send\<close>,
  \<open>processedMessages\<close> the \<open>Set\<close> in insertion order, \<open>speechSynthesis\<close> is
  \<open>None\<close> when the window has no speech synthesis, \<open>timers\<close> the delays and
  callbacks given to \<open>setTimeout\<close>.
\<close>

record voice_state =
  react :: react_state
  wsReadyState :: "ready_state option"
  wsSent :: "string list"
  reconnectAttempts :: nat
  processedMessages :: "string list"
  lastResultMessage :: string
  currentUtterance :: "utterance option"
  speechSynthesis :: "speech_synthesis option"
  timers :: "(nat \<times> timer_callback) list"

definition setIsConnected :: "bool \<Rightarrow> voice_state \<Rightarrow> voice_state" where
  "setIsConnected b s = s\<lparr>react := (react s)\<lparr>isConnected := b\<rparr>\<rparr>"

definition setTranscript :: "string \<Rightarrow> voice_state \<Rightarrow> voice_state" where
  "setTranscript t s = s\<lparr>react := (react s)\<lparr>transcript := t\<rparr>\<rparr>"

definition setIsProcessing :: "bool \<Rightarrow> voice_state \<Rightarrow> voice_state" where
  "setIsProcessing b s = s\<lparr>react := (react s)\<lparr>isProcessing := b\<rparr>\<rparr>"

definition setIsSpeaking :: "bool \<Rightarrow> voice_state \<Rightarrow> voice_state" where
  "setIsSpeaking b s = s\<lparr>react := (react s)\<lparr>isSpeaking := b\<rparr>\<rparr>"

definition setAvailableVoices :: "voice list \<Rightarrow> voice_state \<Rightarrow> voice_state" where
  "setAvailableVoices vs s = s\<lparr>react := (react s)\<lparr>availableVoices := vs\<rparr>\<rparr>"

definition setSelectedVoiceIndex :: "nat \<Rightarrow> voice_state \<Rightarrow> voice_state" where
  "setSelectedVoiceIndex i s = s\<lparr>react := (react s)\<lparr>selectedVoiceIndex := i\<rparr>\<rparr>"

definition setTimeout :: "timer_callback \<Rightarrow> nat \<Rightarrow> voice_state \<Rightarrow> voice_state" where
  "setTimeout cb delay s = s\<lparr>timers := timers s @ [(delay, cb)]\<rparr>"

text \<open>\<open>window.speechSynthesis.cancel()\<close> and \<open>window.speechSynthesis.speak(u)\<close>.\<close>

definition synth_cancel :: "voice_state \<Rightarrow> voice_state" where
  "synth_cancel s =
     s\<lparr>speechSynthesis := map_option (\<lambda>y. y\<lparr>queue := []\<rparr>) (speechSynthesis s)\<rparr>"

definition synth_speak :: "utterance \<Rightarrow> voice_state \<Rightarrow> voice_state" where
  "synth_speak u s =
     s\<lparr>speechSynthesis := map_option (\<lambda>y. y\<lparr>queue := queue y @ [u]\<rparr>) (speechSynthesis s)\<rparr>"

text \<open>\<open>wsRef.current.send(JSON.stringify({type, text}))\<close>.\<close>

definition frame :: "string \<Rightarrow> string \<Rightarrow> string" where
  "frame ty text = to_string (JSON_stringify (Obj [(''type'', Str ty), (''text'', Str text)]))"

definition ws_send :: "string \<Rightarrow> string \<Rightarrow> voice_state \<Rightarrow> voice_state" where
  "ws_send ty text s = s\<lparr>wsSent := wsSent s @ [frame ty text]\<rparr>"

section \<open>The voice page: speech output\<close>

definition addMessage :: "nat \<Rightarrow> string \<Rightarrow> jsval \<Rightarrow> voice_state \<Rightarrow> voice_state" where
  "addMessage now ty text s =
     s\<lparr>react := (react s)\<lparr>messages := messages (react s) @ [(ty, text, now)]\<rparr>\<rparr>"

definition preferred_voice :: "voice \<Rightarrow> bool" where
  "preferred_voice v =
     (str_includes (voice_name v) ''Samantha'' \<or>
      str_includes (voice_name v) ''Victoria'' \<or>
      str_includes (voice_name v) ''Karen'' \<or>
      str_includes (voice_name v) ''Female'' \<or>
      str_includes (voice_name v) ''Google US English'' \<or>
      str_includes (voice_name v) ''Microsoft Zira'' \<or>
      str_includes (voice_name v) ''Alex'' \<or>
      voice_default v)"

text \<open>
  \<open>startSpeech\<close> builds the utterance, picks its voice and hands it to the browser. (It
  is only called after \<open>speak\<close> has found \<open>speechSynthesis\<close> in the window.)
\<close>

definition startSpeech ::
  "react_state \<Rightarrow> string \<Rightarrow> bool \<Rightarrow> bool \<Rightarrow> voice_state \<Rightarrow> voice_state" where
  "startSpeech c text isSystem priority s =
     (case speechSynthesis s of
        None \<Rightarrow> s
      | Some synth \<Rightarrow>
          let u = \<lparr>utext = text, rate = 8 / 10, pitch = 1, volume = 1, uvoice = None\<rparr>
          in if availableVoices c = []
             then (let voices = getVoices synth
                   in if voices \<noteq> []
                      then (case findIndex preferred_voice voices of
                              None \<Rightarrow> synth_speak u (setAvailableVoices voices s)
                            | Some preferredIndex \<Rightarrow>
                                synth_speak (u\<lparr>uvoice := Some (voices ! preferredIndex)\<rparr>)
                                  (setSelectedVoiceIndex preferredIndex
                                     (setAvailableVoices voices s)))
                      else synth_speak u s)
             else if selectedVoiceIndex c < length (availableVoices c)
               then synth_speak
                      (u\<lparr>uvoice := Some (availableVoices c ! selectedVoiceIndex c)\<rparr>) s
               else synth_speak u s)"

definition speak ::
  "react_state \<Rightarrow> string \<Rightarrow> bool \<Rightarrow> bool \<Rightarrow> voice_state \<Rightarrow> voice_state" where
  "speak c text isSystem priority s =
     (if speechSynthesis s = None then s
      else if priority \<or> (isSpeaking c \<and> \<not> isSystem)
        then setTimeout (CallStartSpeech c text isSystem priority) 100
               ((setIsSpeaking False (synth_cancel s))\<lparr>currentUtterance := None\<rparr>)
      else if isSpeaking c \<and> \<not> priority then s
      else startSpeech c text isSystem priority s)"

text \<open>The handlers \<open>startSpeech\<close> puts on the utterance.\<close>

definition utterance_onstart :: "utterance \<Rightarrow> voice_state \<Rightarrow> voice_state" where
  "utterance_onstart u s = (setIsSpeaking True s)\<lparr>currentUtterance := Some u\<rparr>"

definition utterance_onend :: "voice_state \<Rightarrow> voice_state" where
  "utterance_onend s = (setIsSpeaking False s)\<lparr>currentUtterance := None\<rparr>"

definition utterance_onerror :: "string \<Rightarrow> string \<Rightarrow> voice_state \<Rightarrow> voice_state" where
  "utterance_onerror text err s =
     (let s1 = (setIsSpeaking False s)\<lparr>currentUtterance := None\<rparr>
      in if err = ''network'' \<or> err = ''synthesis-failed''
         then setTimeout
                (SynthSpeak \<lparr>utext = text, rate = 1, pitch = 1, volume = 1, uvoice = None\<rparr>)
                500 s1
         else s1)"

section \<open>The voice page: outbound commands\<close>

definition interruptSpeech :: "voice_state \<Rightarrow> voice_state" where
  "interruptSpeech s =
     (if speechSynthesis s \<noteq> None
      then (let s1 = (setIsSpeaking False (synth_cancel s))\<lparr>currentUtterance := None\<rparr>
            in if wsReadyState s1 = Some OPEN then ws_send ''interrupt'' [] s1 else s1)
      else s)"

definition sendCommand :: "nat \<Rightarrow> string \<Rightarrow> voice_state \<Rightarrow> voice_state" where
  "sendCommand now command s =
     (if wsReadyState s = Some OPEN then ws_send ''command'' command s
      else addMessage now ''error'' (Str ''Not connected to backend'') s)"

definition cancelCurrentTask :: "react_state \<Rightarrow> voice_state \<Rightarrow> voice_state" where
  "cancelCurrentTask c s =
     (if wsReadyState s = Some OPEN
      then speak c ''Cancelling current task'' True False (ws_send ''cancel'' [] s)
      else s)"

section \<open>The voice page: the WebSocket channel\<close>

definition ws_onopen :: "react_state \<Rightarrow> nat \<Rightarrow> voice_state \<Rightarrow> voice_state" where
  "ws_onopen c now s =
     setTimeout
       (CallSpeak c ''Connected to voice browser. You can now give commands.'' True False) 500
       (addMessage now ''system'' (Str ''Connected to voice browser backend'')
          ((setIsConnected True s)\<lparr>reconnectAttempts := 0\<rparr>))"

text \<open>
  \<open>Math.min(1000 * Math.pow(2, attempts), 30000)\<close>. In floating point the product is
  exact until it overflows to infinity, far above the cap, so the result is the one of
  the natural numbers.
\<close>

definition reconnect_delay :: "nat \<Rightarrow> nat" where
  "reconnect_delay attempts = min (1000 * 2 ^ attempts) 30000"

definition ws_onclose :: "react_state \<Rightarrow> nat \<Rightarrow> nat \<Rightarrow> voice_state \<Rightarrow> voice_state" where
  "ws_onclose c now code s =
     (let s1 = addMessage now ''system'' (Str ''Disconnected from backend'')
                 (setIsConnected False s)
      in if code \<noteq> 1000
         then (let s2 = speak c ''Disconnected from voice browser backend'' True False s1;
                   delay = reconnect_delay (reconnectAttempts s2);
                   s3 = s2\<lparr>reconnectAttempts := reconnectAttempts s2 + 1\<rparr>;
                   s4 = addMessage now ''system''
                          (Str (''Attempting to reconnect in '' @ show_nat (delay div 1000)
                                @ '' seconds...'')) s3
               in setTimeout (ConnectToBackend c) delay s4)
         else s1)"

text \<open>
  The \<open>Set\<close> of processed messages, in insertion order. \<open>remember\<close> is the
  \<open>add\<close> followed by the eviction of the first item once there are more than 50.
\<close>

definition set_add :: "string \<Rightarrow> string list \<Rightarrow> string list" where
  "set_add k ps = (if k \<in> set ps then ps else ps @ [k])"

definition set_delete :: "string \<Rightarrow> string list \<Rightarrow> string list" where
  "set_delete k ps = remove1 k ps"

definition remember :: "string \<Rightarrow> string list \<Rightarrow> string list" where
  "remember k ps =
     (let ps1 = set_add k ps
      in if length ps1 > 50
         then (case ps1 of
                 [] \<Rightarrow> ps1
               | firstItem # rest \<Rightarrow>
                   if firstItem \<noteq> [] then set_delete firstItem ps1 else ps1)
         else ps1)"

text \<open>
  \<open>`${data.type}-${JSON.stringify(data.data)}-${Math.floor(now / 2000)}`\<close>: type,
  payload and the 2-second bucket of the arrival time.
\<close>

definition messageHash :: "jsval \<Rightarrow> jsval \<Rightarrow> string" where
  "messageHash ty payload = to_string ty @ ''-'' @ to_string (JSON_stringify payload)"

definition messageWithTime :: "jsval \<Rightarrow> jsval \<Rightarrow> nat \<Rightarrow> string" where
  "messageWithTime ty payload now = messageHash ty payload @ ''-'' @ show_nat (now div 2000)"

text \<open>
  The four branches of \<open>ws.onmessage\<close>. A throw in a branch (\<open>data.data\<close> is
  \<open>null\<close>, \<open>text\<close> has no \<open>substring\<close>, \<open>message\<close> has no \<open>includes\<close>)
  ends the handler in its \<open>catch\<close>, with the changes made so far.
\<close>

definition on_speak :: "react_state \<Rightarrow> nat \<Rightarrow> jsval \<Rightarrow> voice_state \<Rightarrow> voice_state" where
  "on_speak c now payload s =
     (case get_prop payload ''text'' of
        Some (Str text) \<Rightarrow> addMessage now ''assistant'' (Str text) (speak c text False True s)
      | _ \<Rightarrow> s)"

definition on_result :: "react_state \<Rightarrow> nat \<Rightarrow> jsval \<Rightarrow> voice_state \<Rightarrow> voice_state" where
  "on_result c now payload s =
     (case get_prop payload ''text'' of
        Some (Str text) \<Rightarrow>
          if lastResultMessage s = text
          then addMessage now ''result'' (Str text) s
          else addMessage now ''result'' (Str text)
                 (speak c text False True (s\<lparr>lastResultMessage := text\<rparr>))
      | _ \<Rightarrow> s)"

definition on_status :: "nat \<Rightarrow> jsval \<Rightarrow> voice_state \<Rightarrow> voice_state" where
  "on_status now payload s =
     (case get_prop payload ''message'' of
        None \<Rightarrow> s
      | Some m \<Rightarrow>
          let s1 = addMessage now ''status'' m s
          in (case js_includes m ''Processing:'' of
                None \<Rightarrow> s1
              | Some True \<Rightarrow> setIsProcessing True s1
              | Some False \<Rightarrow>
                  (case js_includes m ''Ready'' of
                     Some True \<Rightarrow> setIsProcessing False s1
                   | _ \<Rightarrow> s1)))"

definition on_error :: "react_state \<Rightarrow> nat \<Rightarrow> jsval \<Rightarrow> voice_state \<Rightarrow> voice_state" where
  "on_error c now payload s =
     (case get_prop payload ''message'' of
        None \<Rightarrow> s
      | Some m \<Rightarrow>
          setIsProcessing False
            (speak c (''Error: '' @ to_string m) True False (addMessage now ''error'' m s)))"

text \<open>
  \<open>ws.onmessage\<close>, for the event data as \<open>JSON.parse\<close> reads it (\<open>None\<close> when it
  throws) and the time \<open>now\<close> of \<open>Date.now()\<close>.
\<close>

definition ws_onmessage ::
  "react_state \<Rightarrow> nat \<Rightarrow> jsval option \<Rightarrow> voice_state \<Rightarrow> voice_state" where
  "ws_onmessage c now parsed s =
     (case parsed of
        None \<Rightarrow> s
      | Some data \<Rightarrow>
          (case (get_prop data ''type'', get_prop data ''data'') of
             (Some ty, Some payload) \<Rightarrow>
               let key = messageWithTime ty payload now
               in if key \<in> set (processedMessages s) then s
                  else (let s1 = s\<lparr>processedMessages := remember key (processedMessages s)\<rparr>
                        in if ty = Str ''speak'' then on_speak c now payload s1
                           else if ty = Str ''result'' then on_result c now payload s1
                           else if ty = Str ''status'' then on_status now payload s1
                           else if ty = Str ''error'' then on_error c now payload s1
                           else s1)
           | _ \<Rightarrow> s))"

text \<open>Whether an event carries a message of type \<open>result\<close>.\<close>

definition is_result :: "jsval option \<Rightarrow> bool" where
  "is_result parsed =
     (case parsed of
        None \<Rightarrow> False
      | Some data \<Rightarrow> get_prop data ''type'' = Some (Str ''result''))"

text \<open>
  The key under which \<open>ws.onmessage\<close> looks a message up (there is none when reading
  \<open>data.type\<close> throws), whether the message is dropped as a duplicate, and the text of
  a message of type \<open>result\<close>.
\<close>

definition message_key :: "jsval \<Rightarrow> nat \<Rightarrow> string option" where
  "message_key data now =
     (case (get_prop data ''type'', get_prop data ''data'') of
        (Some ty, Some payload) \<Rightarrow> Some (messageWithTime ty payload now)
      | _ \<Rightarrow> None)"

definition is_duplicate :: "voice_state \<Rightarrow> nat \<Rightarrow> jsval \<Rightarrow> bool" where
  "is_duplicate s now data =
     (case message_key data now of
        None \<Rightarrow> False
      | Some key \<Rightarrow> key \<in> set (processedMessages s))"

definition result_text :: "jsval \<Rightarrow> string option" where
  "result_text data =
     (if get_prop data ''type'' = Some (Str ''result'')
      then (case get_prop data ''data'' of
              None \<Rightarrow> None
            | Some payload \<Rightarrow>
                (case get_prop payload ''text'' of
                   Some (Str text) \<Rightarrow> Some text
                 | _ \<Rightarrow> None))
      else None)"

text \<open>A run of inbound messages, each with its arrival time.\<close>

fun ws_onmessages ::
  "react_state \<Rightarrow> (nat \<times> jsval option) list \<Rightarrow> voice_state \<Rightarrow> voice_state" where
  "ws_onmessages c [] s = s"
| "ws_onmessages c (ev # evs) s = ws_onmessages c evs (ws_onmessage c (fst ev) (snd ev) s)"

section \<open>The voice page: speech recognition\<close>

text \<open>
  \<open>recognition.onresult\<close>, for the transcript of the current result and its
  \<open>isFinal\<close> flag.
\<close>

definition recognition_onresult ::
  "react_state \<Rightarrow> nat \<Rightarrow> string \<Rightarrow> bool \<Rightarrow> voice_state \<Rightarrow> voice_state" where
  "recognition_onresult c now heard isFinal s =
     (let s1 = setTranscript heard s;
          s2 = (if isSpeaking c \<and> str_includes (toLowerCase heard) ''stop''
                then interruptSpeech s1 else s1)
      in if isFinal
         then (let finalTranscript = trim heard;
                   s3 = (if finalTranscript \<noteq> []
                         then addMessage now ''user'' (Str finalTranscript)
                                (sendCommand now finalTranscript s2)
                         else s2)
               in setTranscript [] s3)
         else s2)"

text \<open>
  \<open>setupSpeechRecognition\<close> is called in one place, the effect with the empty
  dependency list that runs after the first render. The \<open>onresult\<close> it installs is
  therefore the closure of that render, for as long as the page lives: the
  \<open>isSpeaking\<close> it reads is the initial \<open>useState(false)\<close>.
\<close>

definition installed_onresult :: "nat \<Rightarrow> string \<Rightarrow> bool \<Rightarrow> voice_state \<Rightarrow> voice_state" where
  "installed_onresult now heard isFinal s = recognition_onresult first_render now heard isFinal s"

section \<open>The task page: state\<close>

record Task =
  task_id :: string
  task_description :: string
  task_status :: string

record StepData =
  pending_approval :: bool
  url :: "string option"
  action_name :: "string option"
  screenshot :: "string option"
  step_number :: "int option"
  index :: "int option"
  total :: "int option"
  next_goal :: "string option"
  human_readable_description :: "string option"

record thought_content =
  state_analysis :: string
  progress_evaluation :: string
  challenges :: string
  next_steps :: "string list"
  reasoning :: string

record PlannerThought =
  timestamp :: real
  content :: thought_content
  formatted_time :: string

record PlannerThoughtsResponse =
  has_thoughts :: bool
  latest :: "PlannerThought option"
  all_thoughts :: "PlannerThought list"
  updated_since_last_fetch :: bool

text \<open>
  The interval behind \<open>typewriterIntervalRef\<close>: the variables of its closure, its period
  in milliseconds, and whether it still fires (\<open>clearInterval\<close> stops it but leaves the
  ref as it is).
\<close>

record typewriter =
  live :: bool
  fullText :: string
  currentPosition :: nat
  charsPerFrame :: nat
  period :: nat

text \<open>The requests the page sends to the backend through the API client.\<close>

datatype request =
    FetchPlannerThoughts string
  | MarkPlannerThoughtsSeen string
  | RejectAction string

text \<open>
  The state of the page: its \<open>useState\<close> variables, the typewriter ref, the
  \<open>isFetchingThoughts\<close> flag of the thoughts effect, and the requests sent so far. The
  handlers of this page are created anew in every render (and \<open>fetchThoughts\<close> whenever
  \<open>activeTask\<close> or \<open>latestThought\<close> changes), so what they read is this state.
\<close>

record home_state =
  activeTask :: "Task option"
  taskDescription :: string
  isLoading :: bool
  error :: "string option"
  showVnc :: bool
  currentStep :: "StepData option"
  stepLoading :: bool
  stepError :: "string option"
  latestThought :: "PlannerThought option"
  displayedText :: string
  isTyping :: bool
  typewriterIntervalRef :: "typewriter option"
  isFetchingThoughts :: bool
  requests :: "request list"

definition isTerminalStatus :: "string \<Rightarrow> bool" where
  "isTerminalStatus st =
     (toLowerCase st \<in> set [''complete'', ''completed'', ''failed'', ''error'', ''stopped''])"

definition isPaused :: "string \<Rightarrow> bool" where
  "isPaused st = (toLowerCase st = ''paused'')"

text \<open>\<open>if (typewriterIntervalRef.current) clearInterval(typewriterIntervalRef.current)\<close>.\<close>

definition clear_typewriter :: "home_state \<Rightarrow> home_state" where
  "clear_typewriter s =
     s\<lparr>typewriterIntervalRef := map_option (\<lambda>tw. tw\<lparr>live := False\<rparr>) (typewriterIntervalRef s)\<rparr>"

section \<open>The task page: planner thoughts\<close>

definition startTypewriterEffect :: "string list \<Rightarrow> home_state \<Rightarrow> home_state" where
  "startTypewriterEffect steps s =
     (let s1 = s\<lparr>typewriterIntervalRef := None\<rparr>
      in if steps = []
         then s1\<lparr>isTyping := False, displayedText := ''(No specific steps outlined)''\<rparr>
         else (let filteredSteps = filter (\<lambda>step. step \<noteq> [] \<and> length (trim step) > 0) steps
               in if filteredSteps = []
                  then s1\<lparr>isTyping := False, displayedText := ''(No specific steps outlined)''\<rparr>
                  else s1\<lparr>displayedText := [], isTyping := True,
                          typewriterIntervalRef :=
                            Some \<lparr>live = True,
                                  fullText = join [CHR 0x0A, CHR 0x0A] filteredSteps,
                                  currentPosition = 0, charsPerFrame = 2, period = 25\<rparr>\<rparr>))"

text \<open>One firing of the interval; an interval that was cleared does not fire.\<close>

definition typewriter_tick :: "home_state \<Rightarrow> home_state" where
  "typewriter_tick s =
     (case typewriterIntervalRef s of
        None \<Rightarrow> s
      | Some tw \<Rightarrow>
          if \<not> live tw then s
          else if currentPosition tw < length (fullText tw)
            then s\<lparr>displayedText :=
                     displayedText s
                     @ take (charsPerFrame tw) (drop (currentPosition tw) (fullText tw)),
                   typewriterIntervalRef :=
                     Some (tw\<lparr>currentPosition := currentPosition tw + charsPerFrame tw\<rparr>)\<rparr>
            else s\<lparr>typewriterIntervalRef := None, isTyping := False\<rparr>)"

fun typewriter_ticks :: "nat \<Rightarrow> home_state \<Rightarrow> home_state" where
  "typewriter_ticks 0 s = s"
| "typewriter_ticks (Suc k) s = typewriter_ticks k (typewriter_tick s)"

text \<open>
  The test of \<open>fetchThoughts\<close> for a new thought:
  \<open>!latestThought || data.latest.timestamp !== latestThought.timestamp\<close>.
\<close>

definition is_new_thought :: "home_state \<Rightarrow> PlannerThought \<Rightarrow> bool" where
  "is_new_thought s l =
     (case latestThought s of
        None \<Rightarrow> True
      | Some seen \<Rightarrow> timestamp l \<noteq> timestamp seen)"

text \<open>
  \<open>fetchThoughts\<close>, for the outcome \<open>fetched\<close> of awaiting
  \<open>fetchPlannerThoughts\<close>. A failure is logged and dropped; the call of
  \<open>markPlannerThoughtsSeen\<close> is not awaited.
\<close>

definition fetchThoughts ::
  "js_error + PlannerThoughtsResponse \<Rightarrow> home_state \<Rightarrow> home_state" where
  "fetchThoughts fetched s =
     (case activeTask s of
        None \<Rightarrow> s
      | Some task \<Rightarrow>
          if toLowerCase (task_status task) \<noteq> ''running'' \<or> isFetchingThoughts s then s
          else (let s1 = s\<lparr>requests := requests s @ [FetchPlannerThoughts (task_id task)]\<rparr>
                in case fetched of
                     Inl e \<Rightarrow> s1
                   | Inr data \<Rightarrow>
                       (case latest data of
                          None \<Rightarrow> s1
                        | Some l \<Rightarrow>
                            if is_new_thought s l
                            then (let s2 = startTypewriterEffect (next_steps (content l))
                                             (s1\<lparr>latestThought := Some l\<rparr>)
                                  in s2\<lparr>requests :=
                                          requests s2
                                          @ [MarkPlannerThoughtsSeen (task_id task)]\<rparr>)
                            else s1)))"

text \<open>
  The state \<open>fetchThoughts\<close> leaves when the thought \<open>l\<close> it fetched for the task is
  new: the request is recorded, the thought stored, the typewriter started on its next
  steps, and the mark-seen request sent.
\<close>

definition new_thought_state :: "Task \<Rightarrow> PlannerThought \<Rightarrow> home_state \<Rightarrow> home_state" where
  "new_thought_state task l s =
     (startTypewriterEffect (next_steps (content l))
        (s\<lparr>requests := requests s @ [FetchPlannerThoughts (task_id task)],
           latestThought := Some l\<rparr>))
     \<lparr>requests := requests s @ [FetchPlannerThoughts (task_id task),
                                  MarkPlannerThoughtsSeen (task_id task)]\<rparr>"

text \<open>The text the typewriter reveals for a list of steps.\<close>

definition reveal_text :: "string list \<Rightarrow> string" where
  "reveal_text steps =
     join [CHR 0x0A, CHR 0x0A] (filter (\<lambda>step. step \<noteq> [] \<and> length (trim step) > 0) steps)"

text \<open>
  The cleanup of the thoughts effect: it clears the polling interval and, when the ref
  holds one, the typewriter interval.
\<close>

definition thoughts_effect_cleanup :: "home_state \<Rightarrow> home_state" where
  "thoughts_effect_cleanup s = clear_typewriter s"

text \<open>
  The thoughts effect has the dependency list \<open>[activeTask, latestThought]\<close>. When a
  handler has turned the state \<open>before\<close> into \<open>after\<close>, the page renders again, and
  if one of the two has changed, React runs the cleanup of the effect before it sets the
  effect up anew. A render follows the state change at once, long before a timer of 25 ms
  fires.
\<close>

definition rerender :: "home_state \<Rightarrow> home_state \<Rightarrow> home_state" where
  "rerender before after =
     (if activeTask after = activeTask before \<and> latestThought after = latestThought before
      then after
      else thoughts_effect_cleanup after)"

text \<open>One poll of the thoughts loop as the page runs it: the handler, then the render.\<close>

definition poll_thoughts ::
  "js_error + PlannerThoughtsResponse \<Rightarrow> home_state \<Rightarrow> home_state" where
  "poll_thoughts fetched s = rerender s (fetchThoughts fetched s)"

section \<open>The task page: cancelling the goal\<close>

text \<open>
  The only caller of \<open>handleCancelGoal\<close> is the Cancel Goal button, which is rendered
  with \<open>disabled={stepLoading || isLoading}\<close>.
\<close>

definition cancel_goal_disabled :: "home_state \<Rightarrow> bool" where
  "cancel_goal_disabled s = (stepLoading s \<or> isLoading s)"

definition handleStartNewTask :: "home_state \<Rightarrow> home_state" where
  "handleStartNewTask s =
     clear_typewriter
       (s\<lparr>activeTask := None, taskDescription := [], error := None, showVnc := False,
          currentStep := None, latestThought := None, displayedText := [],
          stepError := None\<rparr>)"

text \<open>
  \<open>handleCancelGoal\<close>, for the outcome \<open>rejected\<close> of awaiting \<open>rejectAction\<close>:
  a failure, or the \<open>status\<close> string of the response when it has one
  (\<open>data?.status\<close>).
\<close>

definition handleCancelGoal :: "js_error + string option \<Rightarrow> home_state \<Rightarrow> home_state" where
  "handleCancelGoal rejected s =
     (case activeTask s of
        None \<Rightarrow> s
      | Some task \<Rightarrow>
          if isLoading s \<or> stepLoading s \<or> isTerminalStatus (task_status task) then s
          else (let s1 = s\<lparr>stepError := None, error := None\<rparr>
                in if toLowerCase (task_status task) = ''created'' then handleStartNewTask s1
                   else (let s2 = s1\<lparr>stepLoading := True,
                                      requests := requests s1 @ [RejectAction (task_id task)]\<rparr>;
                             s3 = (case rejected of
                                     Inr st \<Rightarrow>
                                       s2\<lparr>activeTask :=
                                            map_option
                                              (\<lambda>prev. prev\<lparr>task_status :=
                                                 (case st of
                                                    None \<Rightarrow> ''paused''
                                                  | Some v \<Rightarrow> if v \<noteq> [] then v else ''paused'')\<rparr>)
                                              (activeTask s2),
                                          currentStep := None, latestThought := None\<rparr>
                                   | Inl e \<Rightarrow> s2\<lparr>error := Some (message_of e)\<rparr>)
                         in s3\<lparr>stepLoading := False\<rparr>)))"

section \<open>Example states\<close>

text \<open>
  A render in which speech is in progress, and a state of the voice page with an open
  socket and one utterance handed to the browser; the same state with the socket closed;
  and a state after three failed reconnects.
\<close>

definition speaking_render :: react_state where
  "speaking_render = first_render\<lparr>isSpeaking := True\<rparr>"

definition speaking_state :: voice_state where
  "speaking_state =
     \<lparr>react = speaking_render, wsReadyState = Some OPEN, wsSent = [],
      reconnectAttempts = 0, processedMessages = [], lastResultMessage = [],
      currentUtterance = None,
      speechSynthesis =
        Some \<lparr>queue = [\<lparr>utext = ''A long answer'', rate = 8 / 10, pitch = 1, volume = 1,
                         uvoice = None\<rparr>],
              getVoices = []\<rparr>,
      timers = []\<rparr>"

definition closed_state :: voice_state where
  "closed_state = speaking_state\<lparr>wsReadyState := Some CLOSED\<rparr>"

definition retrying_state :: voice_state where
  "retrying_state =
     \<lparr>react = first_render, wsReadyState = Some CLOSED, wsSent = [],
      reconnectAttempts = 3, processedMessages = [], lastResultMessage = [],
      currentUtterance = None, speechSynthesis = Some \<lparr>queue = [], getVoices = []\<rparr>,
      timers = []\<rparr>"

text \<open>
  A state with nothing processed yet; the status messages \<open>Loading\<close>, \<open>Loading.\<close>,
  \<open>Loading..\<close> and so on, with the keys they get in a bucket; and the state after the
  first 51 of them have arrived at time 100.
\<close>

definition fresh_state :: voice_state where
  "fresh_state =
     \<lparr>react = first_render, wsReadyState = Some OPEN, wsSent = [],
      reconnectAttempts = 0, processedMessages = [], lastResultMessage = [],
      currentUtterance = None, speechSynthesis = Some \<lparr>queue = [], getVoices = []\<rparr>,
      timers = []\<rparr>"





text \<open>A result message with the text \<open>Done\<close>.\<close>

definition done_message :: jsval where
  "done_message = Obj [(''type'', Str ''result''), (''data'', Obj [(''text'', Str ''Done'')])]"

text \<open>
  The task page with a running task and nothing else; the same while an approval is in
  flight; and a planner thought with a time stamp and its next steps, as the latest
  thought of a response.
\<close>

definition running_state :: home_state where
  "running_state =
     \<lparr>activeTask = Some \<lparr>task_id = ''t1'', task_description = ''Search for cats'',
                          task_status = ''running''\<rparr>,
      taskDescription = ''Search for cats'', isLoading = False, error = None, showVnc = True,
      currentStep = None, stepLoading = False, stepError = None, latestThought = None,
      displayedText = [], isTyping = False, typewriterIntervalRef = None,
      isFetchingThoughts = False, requests = []\<rparr>"

definition approving_state :: home_state where
  "approving_state = running_state\<lparr>stepLoading := True\<rparr>"

definition created_state :: home_state where
  "created_state =
     running_state\<lparr>activeTask := Some \<lparr>task_id = ''t1'', task_description = ''Search for cats'',
                                       task_status = ''created''\<rparr>\<rparr>"

definition thought :: "real \<Rightarrow> string list \<Rightarrow> PlannerThought" where
  "thought ts steps =
     \<lparr>timestamp = ts,
      content = \<lparr>state_analysis = [], progress_evaluation = [], challenges = [],
                 next_steps = steps, reasoning = []\<rparr>,
      formatted_time = []\<rparr>"

definition latest_is :: "PlannerThought \<Rightarrow> PlannerThoughtsResponse" where
  "latest_is l =
     \<lparr>has_thoughts = True, latest = Some l, all_thoughts = [l],
      updated_since_last_fetch = True\<rparr>"

section \<open>Properties of the Task API client\<close>






lemma not_ok_204: "\<not> ok r \<Longrightarrow> status r \<noteq> 204"
  by (auto simp: ok_def)










text \<open>
  C7. A response with status 204 makes \<open>fetchActionData\<close> and \<open>fetchStepData\<close> return
  \<open>null\<close>, which is a result and not a failure, whatever the body is. And a failure is
  never answered with \<open>null\<close>: a rejected \<open>fetch\<close> is thrown on as it is, and a
  response whose status is not 2xx makes both helpers fail. A 2xx response other than 204
  gives what \<open>json()\<close> gives.
\<close>

theorem no_content_is_null:
  "(status r = 204 \<longrightarrow>
      fetchActionData (Inr r) = Inr Null \<and> fetchStepData (Inr r) = Inr Null
      \<and> (\<forall>e. fetchActionData (Inr r) \<noteq> Inl e) \<and> (\<forall>e. fetchStepData (Inr r) \<noteq> Inl e))
   \<and> fetchActionData (Inl e) = Inl e \<and> fetchStepData (Inl e) = Inl e
   \<and> (\<not> ok r \<longrightarrow>
        (\<exists>m. fetchActionData (Inr r) = Inl (Error m))
        \<and> (\<exists>m. fetchStepData (Inr r) = Inl (Error m)))
   \<and> (ok r \<and> status r \<noteq> 204 \<longrightarrow>
        fetchActionData (Inr r) = json r \<and> fetchStepData (Inr r) = json r)"
  using not_ok_204[of r]
  by (auto simp: fetchActionData_def fetchStepData_def handleApiResponse_def)

text \<open>
  A 204 with an empty body gives \<open>null\<close>; a 500 with an empty body gives the failure
  with the generic message; a rejected \<open>fetch\<close> gives its own error.
\<close>

theorem no_content_is_null_witness:
  "status \<lparr>status = 204, json = Inl (SyntaxError ''Unexpected end of JSON input'')\<rparr> = 204
   \<and> fetchActionData
         (Inr \<lparr>status = 204, json = Inl (SyntaxError ''Unexpected end of JSON input'')\<rparr>)
       = Inr Null
   \<and> fetchStepData
         (Inr \<lparr>status = 204, json = Inl (SyntaxError ''Unexpected end of JSON input'')\<rparr>)
       = Inr Null
   \<and> \<not> ok \<lparr>status = 500, json = Inl (SyntaxError ''Unexpected end of JSON input'')\<rparr>
   \<and> (\<exists>m. fetchActionData
              (Inr \<lparr>status = 500, json = Inl (SyntaxError ''Unexpected end of JSON input'')\<rparr>)
            = Inl (Error m))
   \<and> fetchStepData (Inl (TypeError ''Failed to fetch'')) = Inl (TypeError ''Failed to fetch'')"
proof -
  have bad: "\<not> ok \<lparr>status = 500, json = Inl (SyntaxError ''Unexpected end of JSON input'')\<rparr>"
    by (simp add: ok_def)
  show ?thesis
    using no_content_is_null
            [of "\<lparr>status = 204, json = Inl (SyntaxError ''Unexpected end of JSON input'')\<rparr>"
                "TypeError ''Failed to fetch''"]
          no_content_is_null
            [of "\<lparr>status = 500, json = Inl (SyntaxError ''Unexpected end of JSON input'')\<rparr>"
                "TypeError ''Failed to fetch''"]
          bad
    by simp
qed

section \<open>Properties of the voice page\<close>

lemmas setter_defs = setIsConnected_def setTranscript_def setIsProcessing_def setIsSpeaking_def
  setAvailableVoices_def setSelectedVoiceIndex_def setTimeout_def synth_cancel_def
  synth_speak_def ws_send_def addMessage_def

subsection \<open>What speaking leaves alone\<close>

lemma startSpeech_frame:
  "timers (startSpeech c t a b s) = timers s"
  "reconnectAttempts (startSpeech c t a b s) = reconnectAttempts s"
  "wsSent (startSpeech c t a b s) = wsSent s"
  "wsReadyState (startSpeech c t a b s) = wsReadyState s"
  "processedMessages (startSpeech c t a b s) = processedMessages s"
  "lastResultMessage (startSpeech c t a b s) = lastResultMessage s"
  "messages (react (startSpeech c t a b s)) = messages (react s)"
  "currentUtterance (startSpeech c t a b s) = currentUtterance s"
  by (simp_all add: startSpeech_def setter_defs Let_def split: option.splits)

lemma speak_frame:
  "reconnectAttempts (speak c t a b s) = reconnectAttempts s"
  "wsSent (speak c t a b s) = wsSent s"
  "wsReadyState (speak c t a b s) = wsReadyState s"
  "processedMessages (speak c t a b s) = processedMessages s"
  "lastResultMessage (speak c t a b s) = lastResultMessage s"
  "messages (react (speak c t a b s)) = messages (react s)"
  by (simp_all add: speak_def startSpeech_frame setter_defs)

lemma speak_system_timers: "timers (speak c t True False s) = timers s"
  by (simp add: speak_def startSpeech_frame)

lemma interruptSpeech_frame:
  "messages (react (interruptSpeech s)) = messages (react s)"
  "wsReadyState (interruptSpeech s) = wsReadyState s"
  "timers (interruptSpeech s) = timers s"
  by (simp_all add: interruptSpeech_def setter_defs Let_def)

lemma interruptSpeech_closed:
  "wsReadyState s \<noteq> Some OPEN \<Longrightarrow> wsSent (interruptSpeech s) = wsSent s"
  by (simp add: interruptSpeech_def setter_defs Let_def)

subsection \<open>Reconnecting\<close>

lemma reconnect_delay_cap: "5 \<le> n \<Longrightarrow> reconnect_delay n = 30000"
proof -
  assume "5 \<le> n"
  then have "(2::nat) ^ 5 \<le> 2 ^ n"
    by (intro power_increasing) simp_all
  then have "(32000::nat) \<le> 1000 * 2 ^ n"
    by simp
  then show ?thesis
    by (simp add: reconnect_delay_def)
qed

lemma onclose_unclean:
  "code \<noteq> 1000 \<Longrightarrow>
     timers (ws_onclose c now code s)
       = timers s @ [(reconnect_delay (reconnectAttempts s), ConnectToBackend c)]
   \<and> reconnectAttempts (ws_onclose c now code s) = reconnectAttempts s + 1"
  by (simp add: ws_onclose_def Let_def speak_frame speak_system_timers setter_defs)

lemma onclose_clean:
  "timers (ws_onclose c now 1000 s) = timers s
   \<and> reconnectAttempts (ws_onclose c now 1000 s) = reconnectAttempts s"
  by (simp add: ws_onclose_def Let_def setter_defs)

lemma onopen_resets: "reconnectAttempts (ws_onopen c now s) = 0"
  by (simp add: ws_onopen_def setter_defs)

text \<open>
  C2. A close event whose code is not 1000, after \<open>reconnectAttempts s\<close> earlier
  attempts, adds exactly one timer, the reconnect, with the delay
  \<open>min (1000 * 2 ^ attempts) 30000\<close>, and increments the counter; a close with code 1000
  adds no timer and leaves the counter; an open sets the counter to zero. The delays of
  attempts 0 to 4 are 1000, 2000, 4000, 8000 and 16000 ms, and from attempt 5 on the delay
  is the cap of 30000 ms.
\<close>

theorem reconnect_backoff:
  "(code \<noteq> 1000 \<longrightarrow>
      timers (ws_onclose c now code s)
        = timers s @ [(min (1000 * 2 ^ reconnectAttempts s) 30000, ConnectToBackend c)]
      \<and> reconnectAttempts (ws_onclose c now code s) = reconnectAttempts s + 1)
   \<and> timers (ws_onclose c now 1000 s) = timers s
   \<and> reconnectAttempts (ws_onclose c now 1000 s) = reconnectAttempts s
   \<and> reconnectAttempts (ws_onopen c now s) = 0
   \<and> map reconnect_delay [0, 1, 2, 3, 4] = [1000, 2000, 4000, 8000, 16000]
   \<and> (5 \<le> n \<longrightarrow> reconnect_delay n = 30000)"
  using onclose_unclean[of code c now s] onclose_clean[of c now s] onopen_resets[of c now s]
    reconnect_delay_cap[of n]
  by (simp add: reconnect_delay_def)

text \<open>
  An abnormal close (code 1006) after three attempts schedules the reconnect in 8000 ms and
  makes the counter 4; attempt 7 waits the capped 30000 ms.
\<close>

theorem reconnect_backoff_witness:
  "(1006::nat) \<noteq> 1000
   \<and> timers (ws_onclose first_render 0 1006 retrying_state)
       = [(8000, ConnectToBackend first_render)]
   \<and> reconnectAttempts (ws_onclose first_render 0 1006 retrying_state) = 4
   \<and> (5::nat) \<le> 7 \<and> reconnect_delay 7 = 30000"
  using reconnect_backoff [of 1006 first_render 0 retrying_state 7]
  by (simp add: retrying_state_def)

subsection \<open>Speaking\<close>

lemma startSpeech_utterance:
  "speechSynthesis s = Some y \<Longrightarrow>
     \<exists>v. speechSynthesis (startSpeech c text a b s)
           = Some (y\<lparr>queue := queue y
                    @ [\<lparr>utext = text, rate = 8 / 10, pitch = 1, volume = 1, uvoice = v\<rparr>]\<rparr>)"
  by (auto simp: startSpeech_def setter_defs Let_def split: option.splits)

lemma startSpeech_queue:
  "speechSynthesis s = Some y \<Longrightarrow>
     \<exists>u. utext u = text
       \<and> speechSynthesis (startSpeech c text a b s) = Some (y\<lparr>queue := queue y @ [u]\<rparr>)"
proof -
  assume "speechSynthesis s = Some y"
  from startSpeech_utterance[OF this, of c "text" a b] obtain v where
    "speechSynthesis (startSpeech c text a b s)
       = Some (y\<lparr>queue := queue y
                @ [\<lparr>utext = text, rate = 8 / 10, pitch = 1, volume = 1, uvoice = v\<rparr>]\<rparr>)"
    by blast
  then show ?thesis
    by (intro exI[of _ "\<lparr>utext = text, rate = 8 / 10, pitch = 1, volume = 1, uvoice = v\<rparr>"])
      simp
qed

lemma speak_cancels:
  "speechSynthesis s = Some y \<Longrightarrow> priority \<or> (isSpeaking c \<and> \<not> isSystem) \<Longrightarrow>
     speak c text isSystem priority s
       = s\<lparr>react := (react s)\<lparr>isSpeaking := False\<rparr>,
           speechSynthesis := Some (y\<lparr>queue := []\<rparr>),
           currentUtterance := None,
           timers := timers s @ [(100, CallStartSpeech c text isSystem priority)]\<rparr>"
  by (auto simp: speak_def setter_defs)

lemma speak_drops:
  "\<not> priority \<Longrightarrow> isSpeaking c \<Longrightarrow> isSystem \<Longrightarrow> speak c text isSystem priority s = s"
  by (simp add: speak_def)

lemma speak_starts:
  "speechSynthesis s = Some y \<Longrightarrow> \<not> priority \<Longrightarrow> \<not> isSpeaking c \<Longrightarrow>
     speak c text isSystem priority s = startSpeech c text isSystem priority s"
  by (simp add: speak_def)

text \<open>
  C5, as the code has it, for a window with speech synthesis and with \<open>isSpeaking c\<close>
  the flag as the calling closure reads it. A priority request, and a request that is not
  a system request made while speaking, cancel what was handed to the browser, clear the
  speaking flag and the current utterance, and set a timer of 100 ms that starts the new
  text. A system request without priority made while speaking changes nothing: it is
  dropped. A request without priority made while not speaking starts at once. Starting
  hands exactly one utterance with the text to the browser, behind what is queued there.
\<close>

theorem speak_policy:
  "speechSynthesis s = Some y \<longrightarrow>
     (priority \<or> (isSpeaking c \<and> \<not> isSystem) \<longrightarrow>
        speak c text isSystem priority s
          = s\<lparr>react := (react s)\<lparr>isSpeaking := False\<rparr>,
              speechSynthesis := Some (y\<lparr>queue := []\<rparr>),
              currentUtterance := None,
              timers := timers s @ [(100, CallStartSpeech c text isSystem priority)]\<rparr>)
   \<and> (\<not> priority \<and> isSpeaking c \<and> isSystem \<longrightarrow> speak c text isSystem priority s = s)
   \<and> (\<not> priority \<and> \<not> isSpeaking c \<longrightarrow>
        speak c text isSystem priority s = startSpeech c text isSystem priority s)
   \<and> (\<exists>u. utext u = text
          \<and> speechSynthesis (startSpeech c text isSystem priority s)
              = Some (y\<lparr>queue := queue y @ [u]\<rparr>))"
  using speak_cancels[of s y priority c isSystem "text"]
    speak_drops[of priority c isSystem "text" s]
    speak_starts[of s y priority c "text" isSystem]
    startSpeech_queue[of s y "text" c isSystem priority]
  by blast

text \<open>
  While speaking, a result read with priority empties the browser's queue and sets the
  100 ms timer; for a closure that reads the flag as false, a system request starts at
  once.
\<close>

theorem speak_policy_witness:
  "speechSynthesis (speak speaking_render ''Result'' False True speaking_state)
     = Some \<lparr>queue = [], getVoices = []\<rparr>
   \<and> timers (speak speaking_render ''Result'' False True speaking_state)
     = [(100, CallStartSpeech speaking_render ''Result'' False True)]
   \<and> speak first_render ''Hello'' True False speaking_state
     = startSpeech first_render ''Hello'' True False speaking_state"
  using speak_policy
          [of speaking_state
              "\<lparr>queue = [\<lparr>utext = ''A long answer'', rate = 8 / 10, pitch = 1, volume = 1,
                           uvoice = None\<rparr>],
                getVoices = []\<rparr>"
              True speaking_render False "''Result''"]
        speak_policy
          [of speaking_state
              "\<lparr>queue = [\<lparr>utext = ''A long answer'', rate = 8 / 10, pitch = 1, volume = 1,
                           uvoice = None\<rparr>],
                getVoices = []\<rparr>"
              False first_render True "''Hello''"]
  by (simp add: speaking_state_def first_render_def)

text \<open>
  C5 as the specification states it fails twice. The system announcement
  \<open>speak('Stopped listening', true)\<close>, made while speaking, leaves the state as it is:
  the utterance in flight is not cancelled and the announcement is never started. And a
  request that is neither a system request nor a priority request, made while speaking, is
  not dropped: it cancels the utterance in flight and schedules its own start.
\<close>

theorem system_request_dropped_while_speaking:
  "isSpeaking speaking_render
   \<and> speak speaking_render ''Stopped listening'' True False speaking_state = speaking_state
   \<and> speechSynthesis (speak speaking_render ''Hello'' False False speaking_state)
       = Some \<lparr>queue = [], getVoices = []\<rparr>
   \<and> timers (speak speaking_render ''Hello'' False False speaking_state)
       = [(100, CallStartSpeech speaking_render ''Hello'' False False)]"
  by (simp add: speak_def speaking_state_def speaking_render_def first_render_def setter_defs)

subsection \<open>Sending while the socket is not open\<close>

text \<open>
  C6, as the code has it. While the socket is not open, \<open>sendCommand\<close> sends nothing
  and adds the chat message \<open>Not connected to backend\<close> of type \<open>error\<close>;
  \<open>interruptSpeech\<close> sends nothing and adds no message and no timer (it only stops the
  local speech); \<open>cancelCurrentTask\<close> leaves the whole state as it is.
\<close>

theorem sending_while_not_open:
  "wsReadyState s \<noteq> Some OPEN \<longrightarrow>
     sendCommand now text s
       = s\<lparr>react := (react s)\<lparr>messages := messages (react s)
             @ [(''error'', Str ''Not connected to backend'', now)]\<rparr>\<rparr>
   \<and> wsSent (interruptSpeech s) = wsSent s
   \<and> messages (react (interruptSpeech s)) = messages (react s)
   \<and> timers (interruptSpeech s) = timers s
   \<and> cancelCurrentTask c s = s"
  by (simp add: sendCommand_def addMessage_def interruptSpeech_frame interruptSpeech_closed
      cancelCurrentTask_def)

theorem sending_while_not_open_witness:
  "wsReadyState closed_state \<noteq> Some OPEN
   \<and> messages (react (sendCommand 5 ''go to example.com'' closed_state))
       = [(''error'', Str ''Not connected to backend'', 5)]
   \<and> wsSent (sendCommand 5 ''go to example.com'' closed_state) = []"
  using sending_while_not_open [of closed_state 5 "''go to example.com''" speaking_render]
  by (simp add: closed_state_def speaking_state_def speaking_render_def first_render_def)

text \<open>
  C6 as the specification states it fails for two of the three commands: with the socket
  closed, \<open>cancelCurrentTask\<close> returns the state unchanged, and \<open>interruptSpeech\<close>
  empties the speech queue but sends no frame, adds no chat message and sets no timer.
  Neither reports anything.
\<close>

theorem cancel_and_interrupt_drop_silently:
  "wsReadyState closed_state \<noteq> Some OPEN
   \<and> cancelCurrentTask speaking_render closed_state = closed_state
   \<and> wsSent (interruptSpeech closed_state) = []
   \<and> messages (react (interruptSpeech closed_state)) = []
   \<and> timers (interruptSpeech closed_state) = []
   \<and> speechSynthesis (interruptSpeech closed_state) = Some \<lparr>queue = [], getVoices = []\<rparr>"
  by (simp add: closed_state_def speaking_state_def speaking_render_def first_render_def
      cancelCurrentTask_def interruptSpeech_def setter_defs)

subsection \<open>Recognising speech\<close>

text \<open>
  What \<open>onresult\<close> is written to do, for a closure that reads the speaking flag as set:
  a transcript that contains \<open>stop\<close> in any letter case calls \<open>interruptSpeech\<close>.
\<close>

lemma onresult_stop_interim:
  "isSpeaking c \<Longrightarrow> str_includes (toLowerCase heard) ''stop'' \<Longrightarrow>
     recognition_onresult c now heard False s = interruptSpeech (setTranscript heard s)"
  by (simp add: recognition_onresult_def Let_def)

lemma onresult_stop_final:
  "isSpeaking c \<Longrightarrow> str_includes (toLowerCase heard) ''stop'' \<Longrightarrow> trim heard \<noteq> [] \<Longrightarrow>
     recognition_onresult c now heard True s
       = setTranscript []
           (addMessage now ''user'' (Str (trim heard))
              (sendCommand now (trim heard) (interruptSpeech (setTranscript heard s))))"
  by (simp add: recognition_onresult_def Let_def)

lemma lower_stop: "str_includes (toLowerCase ''Stop'') ''stop''"
  by (simp add: toLowerCase_def lower_char_def)

lemma trim_stop: "trim ''Stop'' = ''Stop''"
  by (simp add: trim_def is_space_def)

text \<open>
  The handler the page installs reads the flag of the first render, which is not set. It
  never touches the speech queue, the speaking flag or the current utterance, whatever is
  heard and whatever is being spoken; and a final result that is not blank is sent as a
  command when the socket is open.
\<close>

lemma installed_onresult_never_interrupts:
  "speechSynthesis (installed_onresult now heard isFinal s) = speechSynthesis s
   \<and> isSpeaking (react (installed_onresult now heard isFinal s)) = isSpeaking (react s)
   \<and> currentUtterance (installed_onresult now heard isFinal s) = currentUtterance s"
  by (simp add: installed_onresult_def recognition_onresult_def Let_def sendCommand_def
      setter_defs first_render_def)

lemma installed_onresult_sends:
  "trim heard \<noteq> [] \<Longrightarrow> wsReadyState s = Some OPEN \<Longrightarrow>
     wsSent (installed_onresult now heard True s) = wsSent s @ [frame ''command'' (trim heard)]"
  by (simp add: installed_onresult_def recognition_onresult_def Let_def sendCommand_def
      setter_defs first_render_def)

text \<open>
  C4 fails on the code. While an utterance is being spoken (the speaking flag of the page
  is set and the utterance is in the browser's queue) and the socket is open, the installed
  handler hears \<open>Stop\<close>: as an interim and as a final result it leaves the queue and
  the flag as they are, so nothing is interrupted and no interrupt frame is sent; and the
  final result is sent to the backend as the command \<open>Stop\<close>.
\<close>

theorem installed_onresult_ignores_stop:
  "isSpeaking (react speaking_state)
   \<and> str_includes (toLowerCase ''Stop'') ''stop''
   \<and> speechSynthesis (installed_onresult 7 ''Stop'' False speaking_state)
       = speechSynthesis speaking_state
   \<and> speechSynthesis (installed_onresult 7 ''Stop'' True speaking_state)
       = speechSynthesis speaking_state
   \<and> isSpeaking (react (installed_onresult 7 ''Stop'' True speaking_state))
   \<and> wsSent (installed_onresult 7 ''Stop'' True speaking_state) = [frame ''command'' ''Stop'']"
proof -
  have a: "isSpeaking (react speaking_state)" "wsReadyState speaking_state = Some OPEN"
    "wsSent speaking_state = []"
    by (simp_all add: speaking_state_def speaking_render_def)
  show ?thesis
    using installed_onresult_never_interrupts[of 7 "''Stop''" _ speaking_state]
      installed_onresult_sends[of "''Stop''" speaking_state 7]
    by (simp add: a lower_stop trim_stop)
qed

subsection \<open>Inbound messages\<close>

lemma on_speak_frame:
  "processedMessages (on_speak c now p s) = processedMessages s"
  "lastResultMessage (on_speak c now p s) = lastResultMessage s"
  by (simp_all add: on_speak_def speak_frame addMessage_def split: option.splits jsval.splits)

lemma on_result_frame:
  "processedMessages (on_result c now p s) = processedMessages s"
  by (simp_all add: on_result_def speak_frame addMessage_def split: option.splits jsval.splits)

lemma on_status_frame:
  "processedMessages (on_status now p s) = processedMessages s"
  "lastResultMessage (on_status now p s) = lastResultMessage s"
  by (simp_all add: on_status_def addMessage_def setIsProcessing_def Let_def
      split: option.splits bool.splits)

lemma on_error_frame:
  "processedMessages (on_error c now p s) = processedMessages s"
  "lastResultMessage (on_error c now p s) = lastResultMessage s"
  by (simp_all add: on_error_def speak_frame addMessage_def setIsProcessing_def
      split: option.splits)

lemmas branch_frame = on_speak_frame on_result_frame on_status_frame on_error_frame


lemma get_prop_type_data:
  "get_prop data ''type'' = None \<longleftrightarrow> get_prop data ''data'' = None"
  by (cases data) (simp_all split: option.splits)

lemma message_key_Some:
  "message_key data now = Some k \<longleftrightarrow>
     (\<exists>ty payload. get_prop data ''type'' = Some ty \<and> get_prop data ''data'' = Some payload
        \<and> k = messageWithTime ty payload now)"
  by (auto simp: message_key_def split: option.splits)

lemma message_key_None:
  "message_key data now = None \<longleftrightarrow> get_prop data ''type'' = None"
  using get_prop_type_data[of data] by (auto simp: message_key_def split: option.splits)

lemma ws_onmessage_unreadable:
  "message_key data now = None \<Longrightarrow> ws_onmessage c now (Some data) s = s"
  by (simp add: ws_onmessage_def message_key_def split: option.splits prod.splits)

lemma ws_onmessage_duplicate:
  assumes "is_duplicate s now data"
  shows "ws_onmessage c now (Some data) s = s"
proof -
  from assms obtain k where "message_key data now = Some k" "k \<in> set (processedMessages s)"
    by (auto simp: is_duplicate_def split: option.splits)
  then obtain ty payload where
    "get_prop data ''type'' = Some ty" "get_prop data ''data'' = Some payload"
    "messageWithTime ty payload now \<in> set (processedMessages s)"
    by (auto simp: message_key_Some)
  then show ?thesis
    by (simp add: ws_onmessage_def Let_def)
qed

lemma ws_onmessage_fresh:
  assumes "get_prop data ''type'' = Some ty" "get_prop data ''data'' = Some payload"
    and "messageWithTime ty payload now \<notin> set (processedMessages s)"
  shows "ws_onmessage c now (Some data) s
           = (let s1 = s\<lparr>processedMessages :=
                          remember (messageWithTime ty payload now) (processedMessages s)\<rparr>
              in if ty = Str ''speak'' then on_speak c now payload s1
                 else if ty = Str ''result'' then on_result c now payload s1
                 else if ty = Str ''status'' then on_status now payload s1
                 else if ty = Str ''error'' then on_error c now payload s1
                 else s1)"
  using assms by (simp add: ws_onmessage_def Let_def)

lemma ws_onmessage_fresh_processed:
  assumes "message_key data now = Some k" "k \<notin> set (processedMessages s)"
  shows "processedMessages (ws_onmessage c now (Some data) s) = remember k (processedMessages s)"
proof -
  from assms(1) obtain ty payload where
    tp: "get_prop data ''type'' = Some ty" "get_prop data ''data'' = Some payload"
      "k = messageWithTime ty payload now"
    by (auto simp: message_key_Some)
  show ?thesis
    using assms(2) unfolding tp(3)
    by (simp add: ws_onmessage_fresh[OF tp(1,2)] Let_def branch_frame)
qed

lemma ws_onmessage_processed:
  "processedMessages (ws_onmessage c now ev s) = processedMessages s
   \<or> (\<exists>k. k \<notin> set (processedMessages s)
          \<and> processedMessages (ws_onmessage c now ev s) = remember k (processedMessages s))"
proof (cases ev)
  case None
  then show ?thesis by (simp add: ws_onmessage_def)
next
  case (Some data)
  show ?thesis
  proof (cases "message_key data now")
    case None
    then show ?thesis using Some by (simp add: ws_onmessage_unreadable)
  next
    case (Some k)
    show ?thesis
    proof (cases "k \<in> set (processedMessages s)")
      case True
      then have "is_duplicate s now data"
        using Some by (simp add: is_duplicate_def)
      then show ?thesis
        using \<open>ev = Some data\<close> by (simp add: ws_onmessage_duplicate)
    next
      case False
      then show ?thesis
        using ws_onmessage_fresh_processed[OF Some False] \<open>ev = Some data\<close> by blast
    qed
  qed
qed

lemma ws_onmessage_lastResult:
  assumes "\<not> is_result ev"
  shows "lastResultMessage (ws_onmessage c now ev s) = lastResultMessage s"
proof (cases ev)
  case None
  then show ?thesis by (simp add: ws_onmessage_def)
next
  case (Some data)
  show ?thesis
  proof (cases "message_key data now")
    case None
    then show ?thesis using Some by (simp add: ws_onmessage_unreadable)
  next
    case k: (Some k)
    then obtain ty payload where
      tp: "get_prop data ''type'' = Some ty" "get_prop data ''data'' = Some payload"
        "k = messageWithTime ty payload now"
      by (auto simp: message_key_Some)
    have nr: "ty \<noteq> Str ''result''"
      using assms Some tp(1) by (simp add: is_result_def)
    show ?thesis
    proof (cases "k \<in> set (processedMessages s)")
      case True
      then have "is_duplicate s now data"
        using k by (simp add: is_duplicate_def)
      then show ?thesis
        using Some by (simp add: ws_onmessage_duplicate)
    next
      case False
      then show ?thesis
        using Some nr unfolding tp(3)
        by (simp add: ws_onmessage_fresh[OF tp(1,2)] Let_def branch_frame)
    qed
  qed
qed

lemma ws_onmessages_lastResult:
  "\<forall>ev \<in> set evs. \<not> is_result (snd ev) \<Longrightarrow>
     lastResultMessage (ws_onmessages c evs s) = lastResultMessage s"
  by (induction evs arbitrary: s) (simp_all add: ws_onmessage_lastResult)

lemma result_text_Some:
  "result_text data = Some t \<Longrightarrow>
     \<exists>payload. get_prop data ''type'' = Some (Str ''result'')
       \<and> get_prop data ''data'' = Some payload \<and> get_prop payload ''text'' = Some (Str t)"
  by (auto simp: result_text_def split: if_splits option.splits jsval.splits)

lemma ws_onmessage_result:
  assumes "result_text data = Some t" "\<not> is_duplicate s now data"
  shows "\<exists>k. ws_onmessage c now (Some data) s
           = on_result c now (Obj [(''text'', Str t)])
               (s\<lparr>processedMessages := remember k (processedMessages s)\<rparr>)"
proof -
  from result_text_Some[OF assms(1)] obtain payload where
    tp: "get_prop data ''type'' = Some (Str ''result'')" "get_prop data ''data'' = Some payload"
      "get_prop payload ''text'' = Some (Str t)"
    by blast
  have fresh: "messageWithTime (Str ''result'') payload now \<notin> set (processedMessages s)"
    using assms(2) tp by (simp add: is_duplicate_def message_key_def)
  have "on_result c now payload s' = on_result c now (Obj [(''text'', Str t)]) s'" for s'
    using tp(3) by (simp add: on_result_def)
  then show ?thesis
    by (intro exI[of _ "messageWithTime (Str ''result'') payload now"])
      (simp add: ws_onmessage_fresh[OF tp(1,2) fresh] Let_def)
qed

lemma on_result_sets:
  "lastResultMessage (on_result c now (Obj [(''text'', Str t)]) s) = t"
  by (simp add: on_result_def speak_frame addMessage_def)

lemma on_result_repeat:
  "lastResultMessage s = t \<Longrightarrow>
     on_result c now (Obj [(''text'', Str t)]) s = addMessage now ''result'' (Str t) s"
  by (simp add: on_result_def)

text \<open>
  C10. Let a message of type \<open>result\<close> with the text \<open>t\<close> be processed (it is
  not dropped by the 2-second window), let any messages that are not of type
  \<open>result\<close> follow, and let then a message of type \<open>result\<close> with the same text
  arrive at any time \<open>n2\<close> at which the window does not drop it. Then the second message
  is appended to the chat history and nothing is spoken: the speech queue, the timers, the
  current utterance and the speaking flag stay as they are.
\<close>

theorem repeated_result_not_spoken:
  assumes "result_text m1 = Some t" "\<not> is_duplicate s n1 m1"
    and "\<forall>ev \<in> set evs. \<not> is_result (snd ev)"
    and "s2 = ws_onmessages c evs (ws_onmessage c n1 (Some m1) s)"
    and "result_text m2 = Some t" "\<not> is_duplicate s2 n2 m2"
  shows "messages (react (ws_onmessage c n2 (Some m2) s2))
           = messages (react s2) @ [(''result'', Str t, n2)]
       \<and> speechSynthesis (ws_onmessage c n2 (Some m2) s2) = speechSynthesis s2
       \<and> timers (ws_onmessage c n2 (Some m2) s2) = timers s2
       \<and> currentUtterance (ws_onmessage c n2 (Some m2) s2) = currentUtterance s2
       \<and> isSpeaking (react (ws_onmessage c n2 (Some m2) s2)) = isSpeaking (react s2)"
proof -
  from ws_onmessage_result[OF assms(1,2), of c] obtain k1 where
    "ws_onmessage c n1 (Some m1) s
       = on_result c n1 (Obj [(''text'', Str t)])
           (s\<lparr>processedMessages := remember k1 (processedMessages s)\<rparr>)"
    by blast
  then have "lastResultMessage (ws_onmessage c n1 (Some m1) s) = t"
    by (simp add: on_result_sets)
  then have last: "lastResultMessage s2 = t"
    using assms(3,4) by (simp add: ws_onmessages_lastResult)
  from ws_onmessage_result[OF assms(5,6), of c] obtain k2 where
    "ws_onmessage c n2 (Some m2) s2
       = on_result c n2 (Obj [(''text'', Str t)])
           (s2\<lparr>processedMessages := remember k2 (processedMessages s2)\<rparr>)"
    by blast
  then have "ws_onmessage c n2 (Some m2) s2
       = addMessage n2 ''result'' (Str t)
           (s2\<lparr>processedMessages := remember k2 (processedMessages s2)\<rparr>)"
    using last by (simp add: on_result_repeat)
  then show ?thesis
    by (simp add: addMessage_def)
qed

lemma done_message_key:
  "message_key done_message now
     = Some (''result-{'' @ [CHR 0x22] @ ''text'' @ [CHR 0x22] @ '':'' @ [CHR 0x22] @ ''Done''
             @ [CHR 0x22] @ ''}-'' @ show_nat (now div 2000))"
  by (simp add: message_key_def done_message_def messageWithTime_def messageHash_def
      JSON_stringify_def quote_def escape_char_def)

text \<open>
  The result \<open>Done\<close> arrives at time 0 and again five seconds later, in another bucket:
  the second one is added to the chat and sets no timer.
\<close>

theorem repeated_result_not_spoken_witness:
  "result_text done_message = Some ''Done''
   \<and> \<not> is_duplicate fresh_state 0 done_message
   \<and> \<not> is_duplicate (ws_onmessage first_render 0 (Some done_message) fresh_state) 5000
         done_message
   \<and> messages (react (ws_onmessage first_render 5000 (Some done_message)
                         (ws_onmessage first_render 0 (Some done_message) fresh_state)))
       = messages (react (ws_onmessage first_render 0 (Some done_message) fresh_state))
         @ [(''result'', Str ''Done'', 5000)]
   \<and> timers (ws_onmessage first_render 5000 (Some done_message)
                (ws_onmessage first_render 0 (Some done_message) fresh_state))
       = timers (ws_onmessage first_render 0 (Some done_message) fresh_state)"
proof -
  let ?s1 = "ws_onmessage first_render 0 (Some done_message) fresh_state"
  have rt: "result_text done_message = Some ''Done''"
    by (simp add: result_text_def done_message_def)
  have nd1: "\<not> is_duplicate fresh_state 0 done_message"
    by (simp add: is_duplicate_def done_message_key fresh_state_def)
  have "processedMessages ?s1
          = remember (''result-{'' @ [CHR 0x22] @ ''text'' @ [CHR 0x22] @ '':'' @ [CHR 0x22]
                      @ ''Done'' @ [CHR 0x22] @ ''}-'' @ show_nat (0 div 2000)) []"
    using ws_onmessage_fresh_processed[OF done_message_key, where s = fresh_state and c = first_render
        and now = 0]
    by (simp add: fresh_state_def)
  then have nd2: "\<not> is_duplicate ?s1 5000 done_message"
    by (simp add: is_duplicate_def done_message_key remember_def set_add_def Let_def
        show_nat.simps)
  have none: "\<forall>ev \<in> set []. \<not> is_result (snd ev)"
    by simp
  have run: "?s1 = ws_onmessages first_render [] ?s1"
    by simp
  show ?thesis
    using repeated_result_not_spoken[OF rt nd1 none run rt nd2] rt nd1 nd2
    by simp
qed

subsection \<open>The set of processed messages\<close>



























section \<open>Properties of the task page\<close>

subsection \<open>Cancelling the goal\<close>

lemma cancel_guarded:
  "isLoading s \<or> stepLoading s \<Longrightarrow> handleCancelGoal r s = s"
  by (auto simp: handleCancelGoal_def split: option.splits)

lemma cancel_created:
  assumes "activeTask s = Some task" "\<not> isTerminalStatus (task_status task)"
    "\<not> isLoading s" "\<not> stepLoading s" "toLowerCase (task_status task) = ''created''"
  shows "handleCancelGoal r s
           = clear_typewriter
               (s\<lparr>activeTask := None, taskDescription := [], error := None,
                    showVnc := False, currentStep := None, latestThought := None,
                    displayedText := [], stepError := None\<rparr>)"
  using assms by (simp add: handleCancelGoal_def handleStartNewTask_def Let_def)

lemma cancel_rejects:
  assumes "activeTask s = Some task" "\<not> isTerminalStatus (task_status task)"
    "\<not> isLoading s" "\<not> stepLoading s" "toLowerCase (task_status task) \<noteq> ''created''"
  shows "requests (handleCancelGoal r s) = requests s @ [RejectAction (task_id task)]"
  using assms by (simp add: handleCancelGoal_def Let_def split: sum.splits)

lemma cancel_pauses:
  assumes "activeTask s = Some task" "\<not> isTerminalStatus (task_status task)"
    "\<not> isLoading s" "\<not> stepLoading s" "toLowerCase (task_status task) \<noteq> ''created''"
  shows "activeTask (handleCancelGoal (Inr None) s) = Some (task\<lparr>task_status := ''paused''\<rparr>)"
  using assms by (simp add: handleCancelGoal_def Let_def)

lemma cancel_goal_enabled:
  "\<not> cancel_goal_disabled s \<longleftrightarrow> \<not> isLoading s \<and> \<not> stepLoading s"
  by (auto simp: cancel_goal_disabled_def)

text \<open>
  C9. The handler is reached through the Cancel Goal button, which is disabled while a
  loading flag is set. For an active task whose status is not terminal and with no loading
  flag set, the handler sends the reject-action request, unless the status is
  \<open>created\<close> (compared in lower case); a rejection that succeeds without a status in
  its answer leaves the task paused. With the status \<open>created\<close> the handler sends
  nothing and resets the page: task, description, error, step error, step, thought and
  displayed text are cleared, the display is hidden and the typewriter stopped. (Were the
  handler called while a loading flag is set, its guard would return at once.)
\<close>

theorem cancel_goal:
  "activeTask s = Some task \<and> \<not> isTerminalStatus (task_status task) \<longrightarrow>
     (\<not> isLoading s \<and> \<not> stepLoading s \<longrightarrow>
        (toLowerCase (task_status task) \<noteq> ''created'' \<longrightarrow>
           requests (handleCancelGoal r s) = requests s @ [RejectAction (task_id task)]
           \<and> activeTask (handleCancelGoal (Inr None) s)
               = Some (task\<lparr>task_status := ''paused''\<rparr>))
      \<and> (toLowerCase (task_status task) = ''created'' \<longrightarrow>
           handleCancelGoal r s
             = clear_typewriter
                 (s\<lparr>activeTask := None, taskDescription := [], error := None,
                    showVnc := False, currentStep := None, latestThought := None,
                    displayedText := [], stepError := None\<rparr>)
           \<and> requests (handleCancelGoal r s) = requests s))
   \<and> (isLoading s \<or> stepLoading s \<longrightarrow> handleCancelGoal r s = s)"
proof (intro impI conjI)
  assume a: "activeTask s = Some task \<and> \<not> isTerminalStatus (task_status task)"
    and b: "\<not> isLoading s \<and> \<not> stepLoading s"
  {
    assume c: "toLowerCase (task_status task) \<noteq> ''created''"
    show "requests (handleCancelGoal r s) = requests s @ [RejectAction (task_id task)]"
      using a b c by (simp add: cancel_rejects)
    show "activeTask (handleCancelGoal (Inr None) s) = Some (task\<lparr>task_status := ''paused''\<rparr>)"
      using a b c by (simp add: cancel_pauses)
  }
  {
    assume c: "toLowerCase (task_status task) = ''created''"
    show "handleCancelGoal r s
            = clear_typewriter
                (s\<lparr>activeTask := None, taskDescription := [], error := None,
                    showVnc := False, currentStep := None, latestThought := None,
                    displayedText := [], stepError := None\<rparr>)"
      using a b c by (simp add: cancel_created)
    then show "requests (handleCancelGoal r s) = requests s"
      by (simp add: clear_typewriter_def)
  }
next
  assume "isLoading s \<or> stepLoading s"
  then show "handleCancelGoal r s = s"
    by (rule cancel_guarded)
qed

lemma lower_running: "toLowerCase ''running'' = ''running''"
  by (simp add: toLowerCase_def lower_char_def)

lemma lower_created: "toLowerCase ''created'' = ''created''"
  by (simp add: toLowerCase_def lower_char_def)

lemma running_not_terminal: "\<not> isTerminalStatus ''running''"
  by (simp add: isTerminalStatus_def lower_running)

lemma created_not_terminal: "\<not> isTerminalStatus ''created''"
  by (simp add: isTerminalStatus_def lower_created)

text \<open>
  Cancelling a running task sends the rejection and pauses the task; cancelling a task
  that is still \<open>created\<close> sends nothing and clears the task; cancelling while an
  approval is in flight changes nothing.
\<close>

theorem cancel_goal_witness:
  "\<not> isTerminalStatus ''running'' \<and> \<not> isTerminalStatus ''created''
   \<and> requests (handleCancelGoal (Inr None) running_state) = [RejectAction ''t1'']
   \<and> activeTask (handleCancelGoal (Inr None) running_state)
       = Some \<lparr>task_id = ''t1'', task_description = ''Search for cats'',
               task_status = ''paused''\<rparr>
   \<and> requests (handleCancelGoal (Inr None) created_state) = []
   \<and> activeTask (handleCancelGoal (Inr None) created_state) = None
   \<and> handleCancelGoal (Inr None) approving_state = approving_state"
proof -
  let ?run = "\<lparr>task_id = ''t1'', task_description = ''Search for cats'',
                task_status = ''running''\<rparr>"
  let ?cre = "\<lparr>task_id = ''t1'', task_description = ''Search for cats'',
                task_status = ''created''\<rparr>"
  have 1: "activeTask running_state = Some ?run" "\<not> isLoading running_state"
    "\<not> stepLoading running_state" "requests running_state = []"
    by (simp_all add: running_state_def)
  have 2: "activeTask created_state = Some ?cre" "\<not> isLoading created_state"
    "\<not> stepLoading created_state" "requests created_state = []"
    by (simp_all add: created_state_def running_state_def)
  have 3: "activeTask approving_state = Some ?run" "stepLoading approving_state"
    by (simp_all add: approving_state_def running_state_def)
  show ?thesis
    using cancel_goal[of running_state ?run "Inr None"]
      cancel_goal[of created_state ?cre "Inr None"]
      cancel_goal[of approving_state ?run "Inr None"]
    by (simp add: 1 2 3 lower_running lower_created running_not_terminal created_not_terminal
        clear_typewriter_def)
qed

subsection \<open>Planner thoughts\<close>

lemma startTypewriterEffect_frame:
  "requests (startTypewriterEffect steps s) = requests s"
  "activeTask (startTypewriterEffect steps s) = activeTask s"
  "isFetchingThoughts (startTypewriterEffect steps s) = isFetchingThoughts s"
  "latestThought (startTypewriterEffect steps s) = latestThought s"
  by (simp_all add: startTypewriterEffect_def Let_def)

lemma startTypewriterEffect_reveals:
  "reveal_text steps \<noteq> [] \<Longrightarrow>
     typewriterIntervalRef (startTypewriterEffect steps s)
       = Some \<lparr>live = True, fullText = reveal_text steps, currentPosition = 0,
               charsPerFrame = 2, period = 25\<rparr>
     \<and> displayedText (startTypewriterEffect steps s) = []
     \<and> isTyping (startTypewriterEffect steps s)"
  by (auto simp: startTypewriterEffect_def reveal_text_def Let_def)

lemma tick_step:
  assumes "displayedText s = take p F"
    and "case typewriterIntervalRef s of
           None \<Rightarrow> length F \<le> p
         | Some tw \<Rightarrow> live tw \<and> charsPerFrame tw = 2 \<and> fullText tw = F \<and> currentPosition tw = p"
  shows "displayedText (typewriter_tick s) = take (p + 2) F
       \<and> (case typewriterIntervalRef (typewriter_tick s) of
             None \<Rightarrow> length F \<le> p + 2
           | Some tw \<Rightarrow> live tw \<and> charsPerFrame tw = 2 \<and> fullText tw = F
                        \<and> currentPosition tw = p + 2)"
proof (cases "typewriterIntervalRef s")
  case None
  then show ?thesis
    using assms by (simp add: typewriter_tick_def)
next
  case (Some tw)
  show ?thesis
  proof (cases "p < length F")
    case True
    have "take p F @ take 2 (drop p F) = take (p + 2) F"
      by (simp only: take_add)
    with True show ?thesis
      using assms Some by (simp add: typewriter_tick_def del: take_Suc_conv_app_nth)
  next
    case False
    then show ?thesis
      using assms Some by (simp add: typewriter_tick_def)
  qed
qed

lemma ticks_reveal:
  "displayedText s = take p F \<Longrightarrow>
   (case typewriterIntervalRef s of
      None \<Rightarrow> length F \<le> p
    | Some tw \<Rightarrow> live tw \<and> charsPerFrame tw = 2 \<and> fullText tw = F \<and> currentPosition tw = p) \<Longrightarrow>
   displayedText (typewriter_ticks k s) = take (p + 2 * k) F"
proof (induction k arbitrary: s p)
  case 0
  then show ?case by simp
next
  case (Suc k)
  from tick_step[OF Suc.prems] Suc.IH[of "typewriter_tick s" "p + 2"] show ?case
    by simp
qed

text \<open>
  The handler by itself: a thought is new exactly when none is stored or the stored one
  has another time stamp; a new thought is stored, starts the typewriter and sends the
  mark-seen request, a thought that is not new only records the fetch.
\<close>

lemma fetchThoughts_new:
  assumes "activeTask s = Some task" "toLowerCase (task_status task) = ''running''"
    "\<not> isFetchingThoughts s" "latest data = Some l" "is_new_thought s l"
  shows "fetchThoughts (Inr data) s = new_thought_state task l s"
  using assms
  by (simp add: fetchThoughts_def new_thought_state_def Let_def startTypewriterEffect_frame)

lemma fetchThoughts_seen:
  assumes "activeTask s = Some task" "toLowerCase (task_status task) = ''running''"
    "\<not> isFetchingThoughts s" "latest data = Some l" "\<not> is_new_thought s l"
  shows "fetchThoughts (Inr data) s
           = s\<lparr>requests := requests s @ [FetchPlannerThoughts (task_id task)]\<rparr>"
  using assms by (simp add: fetchThoughts_def Let_def)

lemma is_new_thought_iff:
  "is_new_thought s l \<longleftrightarrow>
     (latestThought s = None
      \<or> (\<exists>seen. latestThought s = Some seen \<and> timestamp l \<noteq> timestamp seen))"
  by (simp add: is_new_thought_def split: option.splits)

lemma new_thought_state_frame:
  "activeTask (new_thought_state task l s) = activeTask s"
  "isFetchingThoughts (new_thought_state task l s) = isFetchingThoughts s"
  "latestThought (new_thought_state task l s) = Some l"
  by (simp_all add: new_thought_state_def startTypewriterEffect_frame)

text \<open>
  What the interval is written to do, were it left running after the handler: after
  \<open>k\<close> ticks the first \<open>2 * k\<close> characters of the text are shown.
\<close>

lemma new_thought_state_reveals:
  assumes "reveal_text (next_steps (content l)) \<noteq> []"
  shows "displayedText (typewriter_ticks k (new_thought_state task l s))
           = take (2 * k) (reveal_text (next_steps (content l)))"
proof -
  let ?F = "reveal_text (next_steps (content l))"
  let ?s0 = "s\<lparr>requests := requests s @ [FetchPlannerThoughts (task_id task)],
               latestThought := Some l\<rparr>"
  from startTypewriterEffect_reveals[OF assms, of ?s0]
  have "displayedText (new_thought_state task l s) = take 0 ?F"
    and "case typewriterIntervalRef (new_thought_state task l s) of
           None \<Rightarrow> length ?F \<le> 0
         | Some tw \<Rightarrow> live tw \<and> charsPerFrame tw = 2 \<and> fullText tw = ?F
                      \<and> currentPosition tw = 0"
    by (simp_all add: new_thought_state_def)
  from ticks_reveal[OF this, of k] show ?thesis
    by simp
qed

text \<open>After a poll that brought a thought, the stored thought has its time stamp.\<close>

lemma fetchThoughts_stores:
  assumes "activeTask s = Some task" "toLowerCase (task_status task) = ''running''"
    "\<not> isFetchingThoughts s" "latest data = Some l"
  shows "activeTask (fetchThoughts (Inr data) s) = Some task
       \<and> \<not> isFetchingThoughts (fetchThoughts (Inr data) s)
       \<and> (\<exists>seen. latestThought (fetchThoughts (Inr data) s) = Some seen
             \<and> timestamp seen = timestamp l)"
proof (cases "is_new_thought s l")
  case True
  then show ?thesis
    using assms by (simp add: fetchThoughts_new new_thought_state_frame)
next
  case False
  then have "\<exists>seen. latestThought s = Some seen \<and> timestamp seen = timestamp l"
    by (auto simp: is_new_thought_def split: option.splits)
  then show ?thesis
    using assms False by (auto simp: fetchThoughts_seen)
qed

text \<open>
  Time stamps arriving in the order T1, T2, T1: once T1 is stored, T1 again is not new,
  T2 is new, and T1 after that is new again.
\<close>

lemma T1_T2_T1:
  assumes run: "activeTask s = Some task" "toLowerCase (task_status task) = ''running''"
    "\<not> isFetchingThoughts s"
    and d: "latest d1 = Some l1" "latest d2 = Some l2" "latest d3 = Some l3"
    and ts: "timestamp l2 \<noteq> timestamp l1" "timestamp l3 = timestamp l1"
    and s1: "s1 = fetchThoughts (Inr d1) s" and s2: "s2 = fetchThoughts (Inr d2) s1"
  shows "fetchThoughts (Inr d1) s1
           = s1\<lparr>requests := requests s1 @ [FetchPlannerThoughts (task_id task)]\<rparr>
       \<and> s2 = new_thought_state task l2 s1
       \<and> fetchThoughts (Inr d3) s2 = new_thought_state task l3 s2"
proof -
  from fetchThoughts_stores[OF run d(1)] s1 obtain seen1 where
    r1: "activeTask s1 = Some task" "\<not> isFetchingThoughts s1"
      "latestThought s1 = Some seen1" "timestamp seen1 = timestamp l1"
    by auto
  have "\<not> is_new_thought s1 l1"
    using r1 by (simp add: is_new_thought_def)
  then have a: "fetchThoughts (Inr d1) s1
           = s1\<lparr>requests := requests s1 @ [FetchPlannerThoughts (task_id task)]\<rparr>"
    using fetchThoughts_seen[OF r1(1) run(2) r1(2) d(1)] by simp
  have "is_new_thought s1 l2"
    using r1 ts by (simp add: is_new_thought_def)
  then have b: "s2 = new_thought_state task l2 s1"
    using fetchThoughts_new[OF r1(1) run(2) r1(2) d(2)] s2 by simp
  then have r2: "activeTask s2 = Some task" "\<not> isFetchingThoughts s2"
    "latestThought s2 = Some l2"
    using r1 by (simp_all add: new_thought_state_frame)
  have "is_new_thought s2 l3"
    using r2 ts by (simp add: is_new_thought_def)
  then have c: "fetchThoughts (Inr d3) s2 = new_thought_state task l3 s2"
    using fetchThoughts_new[OF r2(1) run(2) r2(2) d(3)] by simp
  from a b c show ?thesis by simp
qed

lemma fetchThoughts_changes_thought:
  assumes "is_new_thought s l"
  shows "latestThought s \<noteq> Some l"
  using assms by (auto simp: is_new_thought_def)

text \<open>
  A poll that brings nothing new is followed by no cleanup; a poll that brings a new
  thought is: the stored thought has changed, so the effect is set up again.
\<close>

lemma poll_thoughts_seen:
  assumes "activeTask s = Some task" "toLowerCase (task_status task) = ''running''"
    "\<not> isFetchingThoughts s" "latest data = Some l" "\<not> is_new_thought s l"
  shows "poll_thoughts (Inr data) s
           = s\<lparr>requests := requests s @ [FetchPlannerThoughts (task_id task)]\<rparr>"
  using assms by (simp add: poll_thoughts_def rerender_def fetchThoughts_seen)

lemma poll_thoughts_new:
  assumes "activeTask s = Some task" "toLowerCase (task_status task) = ''running''"
    "\<not> isFetchingThoughts s" "latest data = Some l" "is_new_thought s l"
  shows "poll_thoughts (Inr data) s = thoughts_effect_cleanup (new_thought_state task l s)"
  using assms fetchThoughts_changes_thought[OF assms(5)]
  by (auto simp: poll_thoughts_def rerender_def fetchThoughts_new new_thought_state_frame)

text \<open>
  The cleanup of the thoughts effect stops the interval that the ref holds, so ticks after
  it reveal nothing more.
\<close>

lemma cleanup_stops_typewriter:
  "typewriter_ticks k (thoughts_effect_cleanup s) = thoughts_effect_cleanup s"
proof (induction k)
  case 0
  then show ?case by simp
next
  case (Suc k)
  have "typewriter_tick (thoughts_effect_cleanup s) = thoughts_effect_cleanup s"
    by (simp add: typewriter_tick_def thoughts_effect_cleanup_def clear_typewriter_def
        split: option.splits)
  with Suc show ?case by simp
qed

lemma reveal_open: "reveal_text [''Open the page''] = ''Open the page''"
  by (simp add: reveal_text_def trim_def is_space_def)

text \<open>
  So a new thought never gets its reveal: after the poll that brought it, any number of
  ticks leaves the state of the poll, in which, when the thought has steps to show, the
  displayed text is empty and the typing flag is set.
\<close>

lemma poll_thoughts_new_reveals_nothing:
  assumes "activeTask s = Some task" "toLowerCase (task_status task) = ''running''"
    "\<not> isFetchingThoughts s" "latest data = Some l" "is_new_thought s l"
    "reveal_text (next_steps (content l)) \<noteq> []"
  shows "typewriter_ticks k (poll_thoughts (Inr data) s) = poll_thoughts (Inr data) s
       \<and> displayedText (poll_thoughts (Inr data) s) = []
       \<and> isTyping (poll_thoughts (Inr data) s)"
proof -
  let ?s0 = "s\<lparr>requests := requests s @ [FetchPlannerThoughts (task_id task)],
               latestThought := Some l\<rparr>"
  from startTypewriterEffect_reveals[OF assms(6), of ?s0]
  have "displayedText (new_thought_state task l s) = []" "isTyping (new_thought_state task l s)"
    by (simp_all add: new_thought_state_def)
  then have "displayedText (poll_thoughts (Inr data) s) = []"
    and "isTyping (poll_thoughts (Inr data) s)"
    by (simp_all add: poll_thoughts_new[OF assms(1-5)] thoughts_effect_cleanup_def
        clear_typewriter_def)
  moreover have "typewriter_ticks k (poll_thoughts (Inr data) s) = poll_thoughts (Inr data) s"
    by (simp only: poll_thoughts_new[OF assms(1-5)] cleanup_stops_typewriter)
  ultimately show ?thesis
    by simp
qed

text \<open>
  C8 fails on the code, in its reveal. A running task has no thought stored, and the poll
  brings a thought with the time stamp 1 and the step \<open>Open the page\<close>. The thought is
  new, and both requests are sent, the fetch and the mark-seen. But the render that follows
  clears the interval the handler has just started: it is left at position 0 and no longer
  live, and two ticks later (as after any number) nothing is displayed and the typing flag
  is still set.
\<close>

theorem new_thought_reveal_is_cleared:
  "is_new_thought running_state (thought 1 [''Open the page''])
   \<and> requests (poll_thoughts (Inr (latest_is (thought 1 [''Open the page'']))) running_state)
       = [FetchPlannerThoughts ''t1'', MarkPlannerThoughtsSeen ''t1'']
   \<and> typewriterIntervalRef
        (poll_thoughts (Inr (latest_is (thought 1 [''Open the page'']))) running_state)
       = Some \<lparr>live = False, fullText = ''Open the page'', currentPosition = 0,
               charsPerFrame = 2, period = 25\<rparr>
   \<and> displayedText
        (typewriter_ticks 2
           (poll_thoughts (Inr (latest_is (thought 1 [''Open the page'']))) running_state))
       = []
   \<and> isTyping
        (typewriter_ticks 2
           (poll_thoughts (Inr (latest_is (thought 1 [''Open the page'']))) running_state))"
proof -
  let ?task = "\<lparr>task_id = ''t1'', task_description = ''Search for cats'',
                 task_status = ''running''\<rparr>"
  let ?l = "thought 1 [''Open the page'']"
  have h: "activeTask running_state = Some ?task" "\<not> isFetchingThoughts running_state"
    "latest (latest_is ?l) = Some ?l" "requests running_state = []"
    by (simp_all add: running_state_def latest_is_def)
  have run: "toLowerCase (task_status ?task) = ''running''"
    by (simp add: lower_running)
  have new: "is_new_thought running_state ?l"
    by (simp add: is_new_thought_def running_state_def)
  have steps: "reveal_text (next_steps (content ?l)) = ''Open the page''"
    by (simp add: thought_def reveal_open)
  then have ne: "reveal_text (next_steps (content ?l)) \<noteq> []"
    by simp
  have eq: "poll_thoughts (Inr (latest_is ?l)) running_state
              = thoughts_effect_cleanup (new_thought_state ?task ?l running_state)"
    by (rule poll_thoughts_new[OF h(1) run h(2) h(3) new])
  have ref: "typewriterIntervalRef (new_thought_state ?task ?l running_state)
               = Some \<lparr>live = True, fullText = ''Open the page'', currentPosition = 0,
                       charsPerFrame = 2, period = 25\<rparr>"
    using startTypewriterEffect_reveals[OF ne] by (simp add: new_thought_state_def steps)
  from poll_thoughts_new_reveals_nothing[OF h(1) run h(2) h(3) new ne, of 2]
  have "displayedText (typewriter_ticks 2 (poll_thoughts (Inr (latest_is ?l)) running_state)) = []"
    and "isTyping (typewriter_ticks 2 (poll_thoughts (Inr (latest_is ?l)) running_state))"
    by simp_all
  moreover have "requests (poll_thoughts (Inr (latest_is ?l)) running_state)
          = [FetchPlannerThoughts ''t1'', MarkPlannerThoughtsSeen ''t1'']"
    by (simp add: eq thoughts_effect_cleanup_def clear_typewriter_def new_thought_state_def h)
  moreover have "typewriterIntervalRef (poll_thoughts (Inr (latest_is ?l)) running_state)
          = Some \<lparr>live = False, fullText = ''Open the page'', currentPosition = 0,
                  charsPerFrame = 2, period = 25\<rparr>"
    by (simp add: eq thoughts_effect_cleanup_def clear_typewriter_def ref)
  ultimately show ?thesis
    using new by simp
qed

end
